theory Spec2Isabelle
  imports Complex_Main "HOL-Library.Word" "HOL-Library.Sublist" "HOL-Library.Monad_Syntax"
begin

section \<open>Strings, as the Go code uses them\<close>

text \<open>
  A Go \<open>string\<close> is a sequence of bytes; it is modelled as a \<open>char list\<close>, one
  \<open>char\<close> per byte, so \<open>length\<close> is Go's \<open>len\<close>.
\<close>

definition byte_of :: "nat \<Rightarrow> char" where
  "byte_of n = Char (odd n) (odd (n div 2)) (odd (n div 4)) (odd (n div 8))
                    (odd (n div 16)) (odd (n div 32)) (odd (n div 64)) (odd (n div 128))"

definition ord :: "char \<Rightarrow> nat" where
  "ord c = of_char c"

definition isDigit :: "char \<Rightarrow> bool" where
  "isDigit c = (48 \<le> ord c \<and> ord c \<le> 57)"

definition digit_val :: "char \<Rightarrow> nat" where
  "digit_val c = ord c - 48"

text \<open>The value of a run of decimal digits (\<open>strconv\<close>, \<open>time.atoi\<close>).\<close>

definition decimal :: "string \<Rightarrow> nat" where
  "decimal ds = foldl (\<lambda>acc d. acc * 10 + digit_val d) 0 ds"

text \<open>\<open>%d\<close> of \<open>fmt.Sprintf\<close>.\<close>

fun show_nat :: "nat \<Rightarrow> string" where
  "show_nat n = (if n < 10 then [''0123456789'' ! n]
                 else show_nat (n div 10) @ [''0123456789'' ! (n mod 10)])"

definition show_int :: "int \<Rightarrow> string" where
  "show_int i = (if i < 0 then CHR ''-'' # show_nat (nat (- i)) else show_nat (nat i))"

text \<open>\<open>strings.HasPrefix\<close>.\<close>

definition strings_HasPrefix :: "string \<Rightarrow> string \<Rightarrow> bool" where
  "strings_HasPrefix s p = (take (length p) s = p)"

text \<open>
  \<open>strings.Split(s, sep)\<close> for a separator of one byte: the pieces between the
  separators, an empty piece included; a string without the separator is one piece.
\<close>

fun strings_Split :: "string \<Rightarrow> char \<Rightarrow> string list" where
  "strings_Split [] sep = [[]]"
| "strings_Split (c # cs) sep =
     (if c = sep then [] # strings_Split cs sep
      else (case strings_Split cs sep of
              [] \<Rightarrow> [[c]]
            | p # ps \<Rightarrow> (c # p) # ps))"

text \<open>
  \<open>strings.SplitN(s, sep, 2)\<close>: cut at the first separator. \<open>None\<close> stands for
  the one-element result (no separator in \<open>s\<close>), \<open>Some (k, v)\<close> for the two-element one.
\<close>

fun strings_SplitN2 :: "string \<Rightarrow> char \<Rightarrow> (string \<times> string) option" where
  "strings_SplitN2 [] sep = None"
| "strings_SplitN2 (c # cs) sep =
     (if c = sep then Some ([], cs)
      else (case strings_SplitN2 cs sep of
              None \<Rightarrow> None
            | Some (k, v) \<Rightarrow> Some (c # k, v)))"

text \<open>
  \<open>strings.TrimSpace\<close>: the white space of Unicode is removed at both ends, rune by
  rune, the string being read as UTF-8. The space runes of one byte are tab, line feed,
  vertical tab, form feed, carriage return and space; those of two bytes are U+0085 and
  U+00A0; those of three bytes are U+1680, U+2000 to U+200A, U+2028, U+2029, U+202F,
  U+205F and U+3000. Any other byte from 0x80 on decodes (alone when the encoding is
  invalid) to a rune that is no space, and the trimming stops there.
\<close>

definition isSpace :: "char \<Rightarrow> bool" where
  "isSpace c = (c = CHR '' '' \<or> (9 \<le> ord c \<and> ord c \<le> 13))"

definition isSpace2 :: "char \<Rightarrow> char \<Rightarrow> bool" where
  "isSpace2 a b = (ord a = 0xC2 \<and> (ord b = 0x85 \<or> ord b = 0xA0))"

definition isSpace3 :: "char \<Rightarrow> char \<Rightarrow> char \<Rightarrow> bool" where
  "isSpace3 a b c =
     ((ord a = 0xE1 \<and> ord b = 0x9A \<and> ord c = 0x80)
      \<or> (ord a = 0xE2 \<and> ord b = 0x80
          \<and> ((0x80 \<le> ord c \<and> ord c \<le> 0x8A) \<or> ord c = 0xA8 \<or> ord c = 0xA9
              \<or> ord c = 0xAF))
      \<or> (ord a = 0xE2 \<and> ord b = 0x81 \<and> ord c = 0x9F)
      \<or> (ord a = 0xE3 \<and> ord b = 0x80 \<and> ord c = 0x80))"

text \<open>\<open>strings.TrimLeftFunc(s, unicode.IsSpace)\<close>.\<close>

fun strings_TrimLeftSpace :: "string \<Rightarrow> string" where
  "strings_TrimLeftSpace (a # b # c # s) =
     (if isSpace a then strings_TrimLeftSpace (b # c # s)
      else if isSpace2 a b then strings_TrimLeftSpace (c # s)
      else if isSpace3 a b c then strings_TrimLeftSpace s
      else a # b # c # s)"
| "strings_TrimLeftSpace [a, b] =
     (if isSpace a then strings_TrimLeftSpace [b]
      else if isSpace2 a b then []
      else [a, b])"
| "strings_TrimLeftSpace [a] = (if isSpace a then [] else [a])"
| "strings_TrimLeftSpace [] = []"

text \<open>
  \<open>strings.TrimRightFunc(s, unicode.IsSpace)\<close>, on the reversed string: the last rune
  is a space when the string ends with the bytes of one.
\<close>

fun trim_right_reversed :: "string \<Rightarrow> string" where
  "trim_right_reversed (c # b # a # s) =
     (if isSpace c then trim_right_reversed (b # a # s)
      else if isSpace2 b c then trim_right_reversed (a # s)
      else if isSpace3 a b c then trim_right_reversed s
      else c # b # a # s)"
| "trim_right_reversed [c, b] =
     (if isSpace c then trim_right_reversed [b]
      else if isSpace2 b c then []
      else [c, b])"
| "trim_right_reversed [c] = (if isSpace c then [] else [c])"
| "trim_right_reversed [] = []"

definition strings_TrimRightSpace :: "string \<Rightarrow> string" where
  "strings_TrimRightSpace s = rev (trim_right_reversed (rev s))"

definition strings_TrimSpace :: "string \<Rightarrow> string" where
  "strings_TrimSpace s = strings_TrimRightSpace (strings_TrimLeftSpace s)"

section \<open>Instants and \<open>time.Parse(time.RFC3339, _)\<close>\<close>

text \<open>
  A \<open>time.Time\<close> is modelled by the instant it denotes: the nanoseconds since the Unix
  epoch, a mathematical integer. \<open>time.Unix(sec, nsec)\<close>, \<open>t.Add(d)\<close> and
  \<open>t.Before(u)\<close> are then a product, a sum and \<open><\<close>.
\<close>

type_synonym Time = int

definition time_Second :: int where
  "time_Second = 1000000000"

definition time_Unix :: "int \<Rightarrow> int \<Rightarrow> Time" where
  "time_Unix sec nsec = sec * time_Second + nsec"

definition time_Add :: "Time \<Rightarrow> int \<Rightarrow> Time" where
  "time_Add t d = t + d"

definition time_Before :: "Time \<Rightarrow> Time \<Rightarrow> bool" where
  "time_Before t u = (t < u)"

definition isLeap :: "nat \<Rightarrow> bool" where
  "isLeap y = (y mod 4 = 0 \<and> (if y mod 100 = 0 then y mod 400 = 0 else True))"

definition daysIn :: "nat \<Rightarrow> nat \<Rightarrow> nat" where
  "daysIn m y = (if m = 2 then (if isLeap y then 29 else 28)
                 else if m = 4 \<or> m = 6 \<or> m = 9 \<or> m = 11 then 30 else 31)"

text \<open>Days from 1970-01-01 to the given day of the proleptic Gregorian calendar.\<close>

definition days_from_civil :: "int \<Rightarrow> int \<Rightarrow> int \<Rightarrow> int" where
  "days_from_civil y m d =
     (let y' = (if m \<le> 2 then y - 1 else y);
          era = y' div 400;
          yoe = y' mod 400;
          mp = (if m > 2 then m - 3 else m + 9);
          doy = (153 * mp + 2) div 5 + d - 1;
          doe = yoe * 365 + yoe div 4 - yoe div 100 + doy
      in era * 146097 + doe - 719468)"

text \<open>
  \<open>getnum\<close> of package \<open>time\<close>: one or two digits; two are required when
  \<open>fixed\<close>.
\<close>

definition getnum :: "string \<Rightarrow> bool \<Rightarrow> (nat \<times> string) option" where
  "getnum s fixed =
     (case s of
        [] \<Rightarrow> None
      | a # r \<Rightarrow>
          if \<not> isDigit a then None
          else (case r of
                  [] \<Rightarrow> if fixed then None else Some (digit_val a, r)
                | b # r' \<Rightarrow>
                    if isDigit b then Some (digit_val a * 10 + digit_val b, r')
                    else if fixed then None else Some (digit_val a, r)))"

text \<open>A literal byte of the layout (\<open>skip\<close>).\<close>

definition skip :: "string \<Rightarrow> char \<Rightarrow> string option" where
  "skip s c = (case s of [] \<Rightarrow> None | a # r \<Rightarrow> if a = c then Some r else None)"

text \<open>
  The fraction of a second that may follow the seconds although the layout has none: a
  period or comma and digits, of which nine count (\<open>parseNanoseconds\<close>).
\<close>

definition parse_fraction :: "string \<Rightarrow> nat \<times> string" where
  "parse_fraction s =
     (case s of
        a # b # r \<Rightarrow>
          if (a = CHR ''.'' \<or> a = CHR '','') \<and> isDigit b then
            (let ds = take 9 (takeWhile isDigit (b # r))
             in (decimal ds * 10 ^ (9 - length ds), dropWhile isDigit (b # r)))
          else (0, s)
      | _ \<Rightarrow> (0, s))"

text \<open>
  The zone of the layout element \<open>Z07:00\<close>: \<open>Z\<close>, or a sign, two digits, a colon
  and two digits. The result is the offset in seconds east of UTC and the rest of the text.
\<close>

definition parse_zone :: "string \<Rightarrow> (int \<times> string) option" where
  "parse_zone s =
     (case s of
        [] \<Rightarrow> None
      | z # r \<Rightarrow>
          if z = CHR ''Z'' then Some (0, r)
          else if length s < 6 \<or> s ! 3 \<noteq> CHR '':'' then None
          else (case getnum (take 2 r) True of
                  None \<Rightarrow> None
                | Some (hr, _) \<Rightarrow>
                    (case getnum (take 2 (drop 3 r)) True of
                       None \<Rightarrow> None
                     | Some (mm, _) \<Rightarrow>
                         if hr > 24 \<or> mm > 60 then None
                         else if z = CHR ''+'' then Some (int ((hr * 60 + mm) * 60), drop 5 r)
                         else if z = CHR ''-'' then Some (- int ((hr * 60 + mm) * 60), drop 5 r)
                         else None)))"

text \<open>
  \<open>time.Parse\<close> with the layout \<open>2006-01-02T15:04:05Z07:00\<close>, element by element
  as the general parser of package \<open>time\<close> reads it (the fast path for RFC 3339 accepts
  a subset and agrees on it): a year of four digits, month and day of two, an hour of one
  or two, minute and second of two, an optional fraction, and the zone; nothing may follow.
  \<open>None\<close> is a parse error.
\<close>

definition guard :: "bool \<Rightarrow> unit option" where
  "guard b = (if b then Some () else None)"

definition time_Parse_RFC3339 :: "string \<Rightarrow> Time option" where
  "time_Parse_RFC3339 s = do {
     _ \<leftarrow> guard (4 \<le> length s \<and> list_all isDigit (take 4 s));
     s1 \<leftarrow> skip (drop 4 s) (CHR ''-'');
     (month, s2) \<leftarrow> getnum s1 True;
     _ \<leftarrow> guard (1 \<le> month \<and> month \<le> 12);
     s3 \<leftarrow> skip s2 (CHR ''-'');
     (day, s4) \<leftarrow> getnum s3 True;
     s5 \<leftarrow> skip s4 (CHR ''T'');
     (hour, s6) \<leftarrow> getnum s5 False;
     _ \<leftarrow> guard (hour < 24);
     s7 \<leftarrow> skip s6 (CHR '':'');
     (minute, s8) \<leftarrow> getnum s7 True;
     _ \<leftarrow> guard (minute < 60);
     s9 \<leftarrow> skip s8 (CHR '':'');
     (sec, s10) \<leftarrow> getnum s9 True;
     _ \<leftarrow> guard (sec < 60);
     (offset, s12) \<leftarrow> parse_zone (snd (parse_fraction s10));
     _ \<leftarrow> guard (s12 = []);
     _ \<leftarrow> guard (1 \<le> day \<and> day \<le> daysIn month (decimal (take 4 s)));
     Some (time_Unix
             (days_from_civil (int (decimal (take 4 s))) (int month) (int day) * 86400
                + int hour * 3600 + int minute * 60 + int sec - offset)
             (int (fst (parse_fraction s10))))
   }"

section \<open>\<open>base64.URLEncoding.DecodeString\<close>\<close>

text \<open>The URL-safe alphabet: \<open>A-Z a-z 0-9 - _\<close>.\<close>

definition b64url_val :: "char \<Rightarrow> nat option" where
  "b64url_val c =
     (let n = ord c in
      if 65 \<le> n \<and> n \<le> 90 then Some (n - 65)
      else if 97 \<le> n \<and> n \<le> 122 then Some (n - 71)
      else if 48 \<le> n \<and> n \<le> 57 then Some (n + 4)
      else if c = CHR ''-'' then Some 62
      else if c = CHR ''_'' then Some 63
      else None)"

text \<open>
  Quanta of four characters give three bytes; the last quantum may end in \<open>==\<close>
  (one byte) or \<open>=\<close> (two bytes), and nothing follows the padding. An incomplete
  quantum, padding anywhere else and a character outside the alphabet are errors. The
  bits left over in a padded quantum are not checked (the decoder is not strict).
\<close>

fun b64_quanta :: "string \<Rightarrow> string option" where
  "b64_quanta [] = Some []"
| "b64_quanta (a # b # c # d # rest) =
     (case (b64url_val a, b64url_val b) of
        (Some x, Some y) \<Rightarrow>
          if c = CHR ''='' then
            (if d = CHR ''='' \<and> rest = [] then Some [byte_of ((x * 64 + y) div 16)] else None)
          else (case b64url_val c of
                  None \<Rightarrow> None
                | Some z \<Rightarrow>
                    if d = CHR ''='' then
                      (if rest = []
                       then Some [byte_of ((x * 64 + y) div 16),
                                  byte_of (((y * 64 + z) div 4) mod 256)]
                       else None)
                    else (case b64url_val d of
                            None \<Rightarrow> None
                          | Some v \<Rightarrow>
                              (case b64_quanta rest of
                                 None \<Rightarrow> None
                               | Some bs \<Rightarrow>
                                   Some (byte_of ((x * 64 + y) div 16)
                                         # byte_of (((y * 64 + z) div 4) mod 256)
                                         # byte_of ((z * 64 + v) mod 256) # bs))))
      | _ \<Rightarrow> None)"
| "b64_quanta _ = None"

text \<open>Carriage returns and line feeds in the input are ignored.\<close>

definition base64_URLEncoding_DecodeString :: "string \<Rightarrow> string option" where
  "base64_URLEncoding_DecodeString s =
     b64_quanta (filter (\<lambda>c. c \<noteq> CHR 0x0D \<and> c \<noteq> CHR 0x0A) s)"

section \<open>\<open>encoding/json\<close>: syntax\<close>

text \<open>
  A JSON value as the decoder sees it. A number keeps its literal: whether it fits the
  Go type it is stored into is decided at that type. The members of an object keep their
  order and their duplicates.
\<close>

datatype json =
    JNull
  | JBool bool
  | JNum string
  | JStr string
  | JArr "json list"
  | JObj "(string \<times> json) list"

datatype token =
    TLBrace | TRBrace | TLBrack | TRBrack | TColon | TComma
  | TStr string | TNum string | TTrue | TFalse | TNull

definition is_json_ws :: "char \<Rightarrow> bool" where
  "is_json_ws c = (c = CHR '' '' \<or> c = CHR 0x09 \<or> c = CHR 0x0A \<or> c = CHR 0x0D)"

definition isHex :: "char \<Rightarrow> bool" where
  "isHex c = (isDigit c \<or> (97 \<le> ord c \<and> ord c \<le> 102) \<or> (65 \<le> ord c \<and> ord c \<le> 70))"

definition hex_val :: "char \<Rightarrow> nat" where
  "hex_val c = (if isDigit c then ord c - 48 else if 97 \<le> ord c then ord c - 87 else ord c - 55)"

definition hex4 :: "string \<Rightarrow> nat" where
  "hex4 s = foldl (\<lambda>acc d. acc * 16 + hex_val d) 0 s"

text \<open>
  The grammar of a number: an optional minus, \<open>0\<close> or a run of digits that does not
  start with \<open>0\<close>, an optional fraction, an optional exponent.
\<close>

definition exp_ok :: "string \<Rightarrow> bool" where
  "exp_ok r =
     (case r of
        [] \<Rightarrow> True
      | e # r1 \<Rightarrow>
          (e = CHR ''e'' \<or> e = CHR ''E'') \<and>
          (case r1 of
             [] \<Rightarrow> False
           | sg # r2 \<Rightarrow>
               if sg = CHR ''+'' \<or> sg = CHR ''-'' then r2 \<noteq> [] \<and> list_all isDigit r2
               else list_all isDigit r1))"

definition frac_exp_ok :: "string \<Rightarrow> bool" where
  "frac_exp_ok r =
     (case r of
        [] \<Rightarrow> True
      | d # r1 \<Rightarrow>
          if d = CHR ''.'' then takeWhile isDigit r1 \<noteq> [] \<and> exp_ok (dropWhile isDigit r1)
          else exp_ok r)"

definition valid_number :: "string \<Rightarrow> bool" where
  "valid_number s =
     (case (if take 1 s = ''-'' then drop 1 s else s) of
        [] \<Rightarrow> False
      | d # r \<Rightarrow>
          isDigit d \<and> frac_exp_ok (if d = CHR ''0'' then r else dropWhile isDigit r))"

definition is_numchar :: "char \<Rightarrow> bool" where
  "is_numchar c = (isDigit c \<or> c = CHR ''.'' \<or> c = CHR ''e'' \<or> c = CHR ''E''
                    \<or> c = CHR ''+'' \<or> c = CHR ''-'')"

text \<open>The escapes of one character, and what they stand for.\<close>

definition simple_escape :: "char \<Rightarrow> char option" where
  "simple_escape e =
     (if e = CHR 0x22 \<or> e = CHR 0x5C \<or> e = CHR ''/'' then Some e
      else if e = CHR ''b'' then Some (CHR 0x08)
      else if e = CHR ''f'' then Some (CHR 0x0C)
      else if e = CHR ''n'' then Some (CHR 0x0A)
      else if e = CHR ''r'' then Some (CHR 0x0D)
      else if e = CHR ''t'' then Some (CHR 0x09)
      else None)"

text \<open>UTF-8: the encoding of a code point, and the length of the valid encoding at the
  head of a string (\<open>0\<close> when there is none; \<open>utf8.DecodeRune\<close>).\<close>

definition utf8_encode :: "nat \<Rightarrow> string" where
  "utf8_encode n =
     (if n < 0x80 then [byte_of n]
      else if n < 0x800 then [byte_of (192 + n div 64), byte_of (128 + n mod 64)]
      else if n < 0x10000 then
        [byte_of (224 + n div 4096), byte_of (128 + (n div 64) mod 64), byte_of (128 + n mod 64)]
      else
        [byte_of (240 + n div 262144), byte_of (128 + (n div 4096) mod 64),
         byte_of (128 + (n div 64) mod 64), byte_of (128 + n mod 64)])"

definition replacement_char :: string where
  "replacement_char = [CHR 0xEF, CHR 0xBF, CHR 0xBD]"

definition byte_in :: "string \<Rightarrow> nat \<Rightarrow> nat \<Rightarrow> nat \<Rightarrow> bool" where
  "byte_in s i lo hi = (i < length s \<and> lo \<le> ord (s ! i) \<and> ord (s ! i) \<le> hi)"

definition utf8_len :: "string \<Rightarrow> nat" where
  "utf8_len s =
     (if byte_in s 0 0 0x7F then 1
      else if byte_in s 0 0xC2 0xDF then (if byte_in s 1 0x80 0xBF then 2 else 0)
      else if byte_in s 0 0xE0 0xE0 then
        (if byte_in s 1 0xA0 0xBF \<and> byte_in s 2 0x80 0xBF then 3 else 0)
      else if byte_in s 0 0xED 0xED then
        (if byte_in s 1 0x80 0x9F \<and> byte_in s 2 0x80 0xBF then 3 else 0)
      else if byte_in s 0 0xE1 0xEF then
        (if byte_in s 1 0x80 0xBF \<and> byte_in s 2 0x80 0xBF then 3 else 0)
      else if byte_in s 0 0xF0 0xF0 then
        (if byte_in s 1 0x90 0xBF \<and> byte_in s 2 0x80 0xBF \<and> byte_in s 3 0x80 0xBF
         then 4 else 0)
      else if byte_in s 0 0xF4 0xF4 then
        (if byte_in s 1 0x80 0x8F \<and> byte_in s 2 0x80 0xBF \<and> byte_in s 3 0x80 0xBF
         then 4 else 0)
      else if byte_in s 0 0xF1 0xF3 then
        (if byte_in s 1 0x80 0xBF \<and> byte_in s 2 0x80 0xBF \<and> byte_in s 3 0x80 0xBF
         then 4 else 0)
      else 0)"

text \<open>Is the text \<open>\uXXXX\<close> of a low surrogate at the head of the string?\<close>

definition low_surrogate_escape :: "string \<Rightarrow> bool" where
  "low_surrogate_escape r =
     (6 \<le> length r \<and> take 2 r = [CHR 0x5C, CHR ''u''] \<and> list_all isHex (take 4 (drop 2 r))
      \<and> 0xDC00 \<le> hex4 (take 4 (drop 2 r)) \<and> hex4 (take 4 (drop 2 r)) < 0xE000)"

text \<open>
  \<open>unquote\<close>: the bytes a string literal stands for, from the text between its quotes
  (whose escapes the scanner has checked). A surrogate pair is one code point; a lone
  surrogate and a byte that is not valid UTF-8 become U+FFFD.
\<close>

fun unquote :: "string \<Rightarrow> string" where
  "unquote [] = []"
| "unquote (c # cs) =
     (if c = CHR 0x5C then
        (case cs of
           [] \<Rightarrow> []
         | e # r \<Rightarrow>
             if e = CHR ''u'' then
               (if 0xD800 \<le> hex4 (take 4 r) \<and> hex4 (take 4 r) < 0xDC00
                   \<and> low_surrogate_escape (drop 4 r)
                then utf8_encode (0x10000 + (hex4 (take 4 r) - 0xD800) * 0x400
                                    + (hex4 (take 4 (drop 6 r)) - 0xDC00))
                     @ unquote (drop 10 r)
                else if 0xD800 \<le> hex4 (take 4 r) \<and> hex4 (take 4 r) < 0xE000
                then replacement_char @ unquote (drop 4 r)
                else utf8_encode (hex4 (take 4 r)) @ unquote (drop 4 r))
             else (case simple_escape e of
                     None \<Rightarrow> []
                   | Some d \<Rightarrow> d # unquote r))
      else if ord c < 0x80 then c # unquote cs
      else if utf8_len (c # cs) = 0 then replacement_char @ unquote cs
      else take (utf8_len (c # cs)) (c # cs) @ unquote (drop (utf8_len (c # cs) - 1) cs))"

text \<open>
  The scanner, byte by byte. The mode says what is being read: between tokens, a string
  (its text so far, reversed), an escape, the hex digits of \<open>\u\<close>, a number, or the
  rest of \<open>true\<close>, \<open>false\<close>, \<open>null\<close>. A step gives the tokens that end at
  this byte and the next mode, or \<open>None\<close> for a syntax error: a control character
  inside a string, a bad escape, a malformed number, any other byte between tokens.
\<close>

datatype lex_mode =
    LTop
  | LStr string
  | LEsc string
  | LHex string nat
  | LNum string
  | LLit string token

definition top_step :: "char \<Rightarrow> (token list \<times> lex_mode) option" where
  "top_step c =
     (if is_json_ws c then Some ([], LTop)
      else if c = CHR ''{'' then Some ([TLBrace], LTop)
      else if c = CHR ''}'' then Some ([TRBrace], LTop)
      else if c = CHR ''['' then Some ([TLBrack], LTop)
      else if c = CHR '']'' then Some ([TRBrack], LTop)
      else if c = CHR '':'' then Some ([TColon], LTop)
      else if c = CHR '','' then Some ([TComma], LTop)
      else if c = CHR 0x22 then Some ([], LStr [])
      else if c = CHR ''-'' \<or> isDigit c then Some ([], LNum [c])
      else if c = CHR ''t'' then Some ([], LLit ''rue'' TTrue)
      else if c = CHR ''f'' then Some ([], LLit ''alse'' TFalse)
      else if c = CHR ''n'' then Some ([], LLit ''ull'' TNull)
      else None)"

definition lex_step :: "lex_mode \<Rightarrow> char \<Rightarrow> (token list \<times> lex_mode) option" where
  "lex_step m c =
     (case m of
        LTop \<Rightarrow> top_step c
      | LStr acc \<Rightarrow>
          (if c = CHR 0x22 then Some ([TStr (unquote (rev acc))], LTop)
           else if c = CHR 0x5C then Some ([], LEsc (c # acc))
           else if ord c < 0x20 then None
           else Some ([], LStr (c # acc)))
      | LEsc acc \<Rightarrow>
          (if c = CHR ''u'' then Some ([], LHex (c # acc) 4)
           else if simple_escape c = None then None
           else Some ([], LStr (c # acc)))
      | LHex acc n \<Rightarrow>
          (if \<not> isHex c then None
           else if n \<le> 1 then Some ([], LStr (c # acc))
           else Some ([], LHex (c # acc) (n - 1)))
      | LNum acc \<Rightarrow>
          (if is_numchar c then Some ([], LNum (c # acc))
           else if \<not> valid_number (rev acc) then None
           else (case top_step c of
                   None \<Rightarrow> None
                 | Some (ts, m') \<Rightarrow> Some (TNum (rev acc) # ts, m')))
      | LLit r t \<Rightarrow>
          (case r of
             [] \<Rightarrow> None
           | x # rs \<Rightarrow>
               if c \<noteq> x then None
               else if rs = [] then Some ([t], LTop)
               else Some ([], LLit rs t)))"

text \<open>At the end of the input only a number may be open.\<close>

definition lex_end :: "lex_mode \<Rightarrow> token list option" where
  "lex_end m =
     (case m of
        LTop \<Rightarrow> Some []
      | LNum acc \<Rightarrow> if valid_number (rev acc) then Some [TNum (rev acc)] else None
      | _ \<Rightarrow> None)"

fun lex :: "lex_mode \<Rightarrow> string \<Rightarrow> token list option" where
  "lex m [] = lex_end m"
| "lex m (c # cs) =
     (case lex_step m c of
        None \<Rightarrow> None
      | Some (ts, m') \<Rightarrow> map_option (append ts) (lex m' cs))"

text \<open>
  The parser: a stack of the containers that are open, and what may come next. An array
  frame holds its elements so far, an object frame its members so far (both reversed),
  and an object frame that waits for a value also holds the key. The scanner of
  \<open>encoding/json\<close> refuses more than 10000 open containers.
\<close>

datatype frame =
    FArr "json list"
  | FObj "(string \<times> json) list"
  | FKey "(string \<times> json) list" string

datatype pstate =
    PValue | PArrFirst | PObjFirst | PKey | PColon | PAfter | PDone json | PError

definition maxNestingDepth :: nat where
  "maxNestingDepth = 10000"

definition scalar :: "token \<Rightarrow> json option" where
  "scalar t =
     (case t of
        TStr x \<Rightarrow> Some (JStr x)
      | TNum n \<Rightarrow> Some (JNum n)
      | TTrue \<Rightarrow> Some (JBool True)
      | TFalse \<Rightarrow> Some (JBool False)
      | TNull \<Rightarrow> Some JNull
      | _ \<Rightarrow> None)"

text \<open>A value is complete: it is the document, an element, or the value of a key.\<close>

definition reduce :: "json \<Rightarrow> frame list \<Rightarrow> pstate \<times> frame list" where
  "reduce v st =
     (case st of
        [] \<Rightarrow> (PDone v, [])
      | FArr xs # st' \<Rightarrow> (PAfter, FArr (v # xs) # st')
      | FKey ms k # st' \<Rightarrow> (PAfter, FObj ((k, v) # ms) # st')
      | FObj ms # st' \<Rightarrow> (PError, st))"

definition push :: "frame \<Rightarrow> pstate \<Rightarrow> frame list \<Rightarrow> pstate \<times> frame list" where
  "push f p st = (if maxNestingDepth \<le> length st then (PError, st) else (p, f # st))"

definition step_value :: "bool \<Rightarrow> token \<Rightarrow> frame list \<Rightarrow> pstate \<times> frame list" where
  "step_value first t st =
     (case scalar t of
        Some v \<Rightarrow> reduce v st
      | None \<Rightarrow>
          if t = TLBrack then push (FArr []) PArrFirst st
          else if t = TLBrace then push (FObj []) PObjFirst st
          else if t = TRBrack \<and> first then
            (case st of
               FArr xs # st' \<Rightarrow> reduce (JArr (rev xs)) st'
             | _ \<Rightarrow> (PError, st))
          else (PError, st))"

definition step_key :: "bool \<Rightarrow> token \<Rightarrow> frame list \<Rightarrow> pstate \<times> frame list" where
  "step_key first t st =
     (case st of
        FObj ms # st' \<Rightarrow>
          (case t of
             TStr k \<Rightarrow> (PColon, FKey ms k # st')
           | TRBrace \<Rightarrow> if first then reduce (JObj (rev ms)) st' else (PError, st)
           | _ \<Rightarrow> (PError, st))
      | _ \<Rightarrow> (PError, st))"

definition step_after :: "token \<Rightarrow> frame list \<Rightarrow> pstate \<times> frame list" where
  "step_after t st =
     (case st of
        FArr xs # st' \<Rightarrow>
          if t = TComma then (PValue, st)
          else if t = TRBrack then reduce (JArr (rev xs)) st'
          else (PError, st)
      | FObj ms # st' \<Rightarrow>
          if t = TComma then (PKey, st)
          else if t = TRBrace then reduce (JObj (rev ms)) st'
          else (PError, st)
      | _ \<Rightarrow> (PError, st))"

definition pstep :: "pstate \<times> frame list \<Rightarrow> token \<Rightarrow> pstate \<times> frame list" where
  "pstep cfg t =
     (case cfg of (p, st) \<Rightarrow>
        (case p of
           PValue \<Rightarrow> step_value False t st
         | PArrFirst \<Rightarrow> step_value True t st
         | PObjFirst \<Rightarrow> step_key True t st
         | PKey \<Rightarrow> step_key False t st
         | PColon \<Rightarrow> if t = TColon then (PValue, st) else (PError, st)
         | PAfter \<Rightarrow> step_after t st
         | PDone v \<Rightarrow> (PError, st)
         | PError \<Rightarrow> (PError, st)))"

definition json_of_tokens :: "token list \<Rightarrow> json option" where
  "json_of_tokens ts =
     (case foldl pstep (PValue, []) ts of
        (PDone v, _) \<Rightarrow> Some v
      | _ \<Rightarrow> None)"

text \<open>The syntax check and the value of a whole document; \<open>None\<close> is a syntax error.\<close>

definition json_parse :: "string \<Rightarrow> json option" where
  "json_parse s = (case lex LTop s of None \<Rightarrow> None | Some ts \<Rightarrow> json_of_tokens ts)"

section \<open>\<open>encoding/json\<close>: storing a value into a Go type\<close>

text \<open>
  The decoder stores \<open>null\<close> into a string or an integer by leaving it as it is, and
  into a pointer or a slice as \<open>nil\<close>; a value of the wrong kind is an
  \<open>UnmarshalTypeError\<close>. The callers here use the result only when the error is
  \<open>nil\<close>, so an error is \<open>None\<close>.
\<close>

definition parse_int64 :: "string \<Rightarrow> int option" where
  "parse_int64 lit =
     (let neg = (take 1 lit = ''-'');
          ds = (if neg then drop 1 lit else lit);
          n = (if neg then - int (decimal ds) else int (decimal ds))
      in if ds \<noteq> [] \<and> list_all isDigit ds \<and> - (2 ^ 63) \<le> n \<and> n < 2 ^ 63
         then Some n else None)"

definition dec_string :: "json \<Rightarrow> string \<Rightarrow> string option" where
  "dec_string v cur = (case v of JStr x \<Rightarrow> Some x | JNull \<Rightarrow> Some cur | _ \<Rightarrow> None)"

definition dec_int64 :: "json \<Rightarrow> int \<Rightarrow> int option" where
  "dec_int64 v cur = (case v of JNum lit \<Rightarrow> parse_int64 lit | JNull \<Rightarrow> Some cur | _ \<Rightarrow> None)"

definition dec_string_ptr :: "json \<Rightarrow> string option option" where
  "dec_string_ptr v = (case v of JStr x \<Rightarrow> Some (Some x) | JNull \<Rightarrow> Some None | _ \<Rightarrow> None)"

definition dec_int64_ptr :: "json \<Rightarrow> int option option" where
  "dec_int64_ptr v =
     (case v of
        JNum lit \<Rightarrow> map_option Some (parse_int64 lit)
      | JNull \<Rightarrow> Some None
      | _ \<Rightarrow> None)"

text \<open>
  A number stored into an \<open>interface{}\<close> becomes a \<open>float64\<close>; the only failure is
  a literal that rounds to infinity, which is one of magnitude at least
  \<open>2^1024 - 2^970\<close>. The literal is \<open>m * 10^k\<close> for its digits \<open>m\<close> and the exponent
  less the length of the fraction.
\<close>

definition float64_ok :: "string \<Rightarrow> bool" where
  "float64_ok lit =
     (let s1 = (if take 1 lit = ''-'' then drop 1 lit else lit);
          ip = takeWhile isDigit s1;
          r1 = dropWhile isDigit s1;
          fp = (if take 1 r1 = ''.'' then takeWhile isDigit (drop 1 r1) else []);
          r2 = (if take 1 r1 = ''.'' then dropWhile isDigit (drop 1 r1) else r1);
          ex = (if r2 = [] then 0
                else if take 1 (drop 1 r2) = ''-'' then - int (decimal (drop 2 r2))
                else if take 1 (drop 1 r2) = ''+'' then int (decimal (drop 2 r2))
                else int (decimal (drop 1 r2)));
          m = decimal (ip @ fp);
          k = ex - int (length fp)
      in if 0 \<le> k then m * 10 ^ nat k < 2 ^ 1024 - 2 ^ 970
         else m < (2 ^ 1024 - 2 ^ 970) * 10 ^ nat (- k))"

fun generic_ok :: "json \<Rightarrow> bool" where
  "generic_ok (JNum lit) = float64_ok lit"
| "generic_ok (JArr xs) = list_all generic_ok xs"
| "generic_ok (JObj ms) = list_all generic_ok (map snd ms)"
| "generic_ok _ = True"

definition dec_interfaces :: "json \<Rightarrow> json list option" where
  "dec_interfaces v =
     (case v of
        JArr xs \<Rightarrow> if list_all generic_ok xs then Some xs else None
      | JNull \<Rightarrow> Some []
      | _ \<Rightarrow> None)"

text \<open>
  A key of an object names the field of a struct whose JSON name is equal to it up to
  case: upper and lower case ASCII letters, and the two code points that fold to an ASCII
  letter, U+212A (\<open>K\<close>) and U+017F (\<open>s\<close>). Keys that name no field are skipped.
\<close>

definition toLower :: "char \<Rightarrow> char" where
  "toLower c = (if 65 \<le> ord c \<and> ord c \<le> 90 then byte_of (ord c + 32) else c)"

fun foldName :: "string \<Rightarrow> string" where
  "foldName [] = []"
| "foldName (c # cs) =
     (if c = CHR 0xE2 \<and> take 2 cs = [CHR 0x84, CHR 0xAA] then CHR ''k'' # foldName (drop 2 cs)
      else if c = CHR 0xC5 \<and> take 1 cs = [CHR 0xBF] then CHR ''s'' # foldName (drop 1 cs)
      else toLower c # foldName cs)"

text \<open>
  A struct is filled member by member in the order of the document, so a later duplicate
  of a key is stored over an earlier one; \<open>null\<close> in place of the object leaves the
  struct as it is, and any other value is an error. \<open>setf k v x\<close> stores \<open>v\<close> into
  the field of \<open>x\<close> that \<open>k\<close> names.
\<close>

definition unmarshal_struct ::
  "(string \<Rightarrow> json \<Rightarrow> 'a \<Rightarrow> 'a option) \<Rightarrow> json \<Rightarrow> 'a \<Rightarrow> 'a option" where
  "unmarshal_struct setf v z =
     (case v of
        JObj ms \<Rightarrow> foldl (\<lambda>acc kv. Option.bind acc (setf (fst kv) (snd kv))) (Some z) ms
      | JNull \<Rightarrow> Some z
      | _ \<Rightarrow> None)"

text \<open>A slice: each element of the array decoded from the zero value.\<close>

definition unmarshal_slice :: "(json \<Rightarrow> 'a option) \<Rightarrow> json \<Rightarrow> 'a list option" where
  "unmarshal_slice dec v =
     (case v of
        JArr xs \<Rightarrow> those (map dec xs)
      | JNull \<Rightarrow> Some []
      | _ \<Rightarrow> None)"

text \<open>
  \<open>map[string]interface{}\<close>, as an association list in the order of the document; a
  lookup finds the last member with the key, as the map keeps the last value stored.
\<close>

definition json_Unmarshal_map :: "string \<Rightarrow> (string \<times> json) list option" where
  "json_Unmarshal_map s =
     (case json_parse s of
        Some (JObj ms) \<Rightarrow> if list_all generic_ok (map snd ms) then Some ms else None
      | Some JNull \<Rightarrow> Some []
      | _ \<Rightarrow> None)"

definition map_get :: "(string \<times> json) list \<Rightarrow> string \<Rightarrow> json option" where
  "map_get ms k = map_of (rev ms) k"

section \<open>Package \<open>config\<close>\<close>

definition DeviceCodeURL :: string where
  "DeviceCodeURL = ''https://github.com/login/device/code''"

definition AccessTokenURL :: string where
  "AccessTokenURL = ''https://github.com/login/oauth/access_token''"

definition SessionTokenURL :: string where
  "SessionTokenURL = ''https://api.github.com/copilot_internal/v2/token''"

definition CompletionsURL :: string where
  "CompletionsURL =
     ''https://copilot-proxy.githubusercontent.com/v1/engines/copilot-codex/completions''"

definition ModelsURL :: string where
  "ModelsURL = ''https://api.enterprise.githubcopilot.com/models''"

definition ModelsURLAlt :: string where
  "ModelsURLAlt = ''https://api.githubcopilot.com/models''"

definition TokenRefreshBufferSeconds :: int where
  "TokenRefreshBufferSeconds = 60"

text \<open>Declared as the fallback lifetime; no function of the package refers to it.\<close>

definition DefaultTokenLifetimeSeconds :: int where
  "DefaultTokenLifetimeSeconds = 25 * 60"

record Config =
  Port :: int
  ClientID :: string
  DataDir :: string
  LogLevel :: string
  RateLimit :: int
  MaxPromptLength :: int

section \<open>The types of package \<open>copilot\<close> and their JSON\<close>

record ModelInfo =
  ID :: string
  Object :: string
  Created :: int
  OwnedBy :: string
  Permission :: "json list"
  Root :: string
  Parent :: "string option"

record DeviceCodeResponse =
  DeviceCode :: string
  UserCode :: string
  VerificationURI :: string
  ExpiresIn :: int
  Interval :: int

record AccessTokenResponse =
  AccessToken :: "string option"
  Error :: "string option"

record SessionTokenResponse =
  Token :: string
  ExpiresAt :: "int option"

record JWTClaims =
  Exp :: int

text \<open>
  The client. Its HTTP transport and its lock are not fields of the model: the transport
  is the world below, and the operations are modelled one at a time.
\<close>

record Client =
  config :: Config
  accessToken :: string
  sessionToken :: string
  expiresAt :: "Time option"

record CompletionRequest =
  Prompt :: string
  Language :: string
  MaxTokens :: int
  Temperature :: real
  Stream :: bool

definition zero_ModelInfo :: ModelInfo where
  "zero_ModelInfo =
     \<lparr>ID = [], Object = [], Created = 0, OwnedBy = [], Permission = [], Root = [],
      Parent = None\<rparr>"

definition set_ModelInfo :: "string \<Rightarrow> json \<Rightarrow> ModelInfo \<Rightarrow> ModelInfo option" where
  "set_ModelInfo k v m =
     (if foldName k = ''id'' then map_option (\<lambda>x. m\<lparr>ID := x\<rparr>) (dec_string v (ID m))
      else if foldName k = ''object'' then
        map_option (\<lambda>x. m\<lparr>Object := x\<rparr>) (dec_string v (Object m))
      else if foldName k = ''created'' then
        map_option (\<lambda>x. m\<lparr>Created := x\<rparr>) (dec_int64 v (Created m))
      else if foldName k = ''owned_by'' then
        map_option (\<lambda>x. m\<lparr>OwnedBy := x\<rparr>) (dec_string v (OwnedBy m))
      else if foldName k = ''permission'' then
        map_option (\<lambda>x. m\<lparr>Permission := x\<rparr>) (dec_interfaces v)
      else if foldName k = ''root'' then
        map_option (\<lambda>x. m\<lparr>Root := x\<rparr>) (dec_string v (Root m))
      else if foldName k = ''parent'' then
        map_option (\<lambda>x. m\<lparr>Parent := x\<rparr>) (dec_string_ptr v)
      else Some m)"

definition dec_ModelInfos :: "json \<Rightarrow> ModelInfo list option" where
  "dec_ModelInfos v = unmarshal_slice (\<lambda>x. unmarshal_struct set_ModelInfo x zero_ModelInfo) v"

text \<open>The three shapes \<open>parseModelsResponse\<close> tries: \<open>{"data": [...]}\<close>, an array of
  models, an array of names.\<close>

definition json_Unmarshal_data :: "string \<Rightarrow> ModelInfo list option" where
  "json_Unmarshal_data s =
     (case json_parse s of
        None \<Rightarrow> None
      | Some v \<Rightarrow>
          unmarshal_struct
            (\<lambda>k x ms. if foldName k = ''data'' then dec_ModelInfos x else Some ms) v [])"

definition json_Unmarshal_ModelInfos :: "string \<Rightarrow> ModelInfo list option" where
  "json_Unmarshal_ModelInfos s =
     (case json_parse s of None \<Rightarrow> None | Some v \<Rightarrow> dec_ModelInfos v)"

definition json_Unmarshal_strings :: "string \<Rightarrow> string list option" where
  "json_Unmarshal_strings s =
     (case json_parse s of
        None \<Rightarrow> None
      | Some v \<Rightarrow> unmarshal_slice (\<lambda>x. dec_string x []) v)"

definition set_DeviceCodeResponse ::
  "string \<Rightarrow> json \<Rightarrow> DeviceCodeResponse \<Rightarrow> DeviceCodeResponse option" where
  "set_DeviceCodeResponse k v d =
     (if foldName k = ''device_code'' then
        map_option (\<lambda>x. d\<lparr>DeviceCode := x\<rparr>) (dec_string v (DeviceCode d))
      else if foldName k = ''user_code'' then
        map_option (\<lambda>x. d\<lparr>UserCode := x\<rparr>) (dec_string v (UserCode d))
      else if foldName k = ''verification_uri'' then
        map_option (\<lambda>x. d\<lparr>VerificationURI := x\<rparr>) (dec_string v (VerificationURI d))
      else if foldName k = ''expires_in'' then
        map_option (\<lambda>x. d\<lparr>ExpiresIn := x\<rparr>) (dec_int64 v (ExpiresIn d))
      else if foldName k = ''interval'' then
        map_option (\<lambda>x. d\<lparr>Interval := x\<rparr>) (dec_int64 v (Interval d))
      else Some d)"

definition json_Unmarshal_DeviceCodeResponse :: "string \<Rightarrow> DeviceCodeResponse option" where
  "json_Unmarshal_DeviceCodeResponse s =
     (case json_parse s of
        None \<Rightarrow> None
      | Some v \<Rightarrow>
          unmarshal_struct set_DeviceCodeResponse v
            \<lparr>DeviceCode = [], UserCode = [], VerificationURI = [], ExpiresIn = 0,
             Interval = 0\<rparr>)"

definition set_AccessTokenResponse ::
  "string \<Rightarrow> json \<Rightarrow> AccessTokenResponse \<Rightarrow> AccessTokenResponse option" where
  "set_AccessTokenResponse k v a =
     (if foldName k = ''access_token'' then
        map_option (\<lambda>x. a\<lparr>AccessToken := x\<rparr>) (dec_string_ptr v)
      else if foldName k = ''error'' then
        map_option (\<lambda>x. a\<lparr>Error := x\<rparr>) (dec_string_ptr v)
      else Some a)"

definition json_Unmarshal_AccessTokenResponse :: "string \<Rightarrow> AccessTokenResponse option" where
  "json_Unmarshal_AccessTokenResponse s =
     (case json_parse s of
        None \<Rightarrow> None
      | Some v \<Rightarrow> unmarshal_struct set_AccessTokenResponse v \<lparr>AccessToken = None, Error = None\<rparr>)"

definition set_SessionTokenResponse ::
  "string \<Rightarrow> json \<Rightarrow> SessionTokenResponse \<Rightarrow> SessionTokenResponse option" where
  "set_SessionTokenResponse k v r =
     (if foldName k = ''token'' then
        map_option (\<lambda>x. r\<lparr>Token := x\<rparr>) (dec_string v (Token r))
      else if foldName k = ''expires_at'' then
        map_option (\<lambda>x. r\<lparr>ExpiresAt := x\<rparr>) (dec_int64_ptr v)
      else Some r)"

definition json_Unmarshal_SessionTokenResponse :: "string \<Rightarrow> SessionTokenResponse option" where
  "json_Unmarshal_SessionTokenResponse s =
     (case json_parse s of
        None \<Rightarrow> None
      | Some v \<Rightarrow> unmarshal_struct set_SessionTokenResponse v \<lparr>Token = [], ExpiresAt = None\<rparr>)"

definition set_JWTClaims :: "string \<Rightarrow> json \<Rightarrow> JWTClaims \<Rightarrow> JWTClaims option" where
  "set_JWTClaims k v cl =
     (if foldName k = ''exp'' then map_option (\<lambda>x. cl\<lparr>Exp := x\<rparr>) (dec_int64 v (Exp cl))
      else Some cl)"

definition json_Unmarshal_JWTClaims :: "string \<Rightarrow> JWTClaims option" where
  "json_Unmarshal_JWTClaims s =
     (case json_parse s of
        None \<Rightarrow> None
      | Some v \<Rightarrow> unmarshal_struct set_JWTClaims v \<lparr>Exp = 0\<rparr>)"

section \<open>Errors and outcomes\<close>

text \<open>
  The errors the package makes, one constructor for each \<open>fmt.Errorf\<close>; an argument
  is the text or the error wrapped. \<open>error_text\<close> is \<open>err.Error()\<close>, without the text
  of a JSON decoder's error where one is wrapped.
\<close>

datatype go_error =
    ContextCanceled
  | RequestError string
  | DeviceCodeRequestFailed string
  | DeviceCodeParseFailed
  | AuthenticationError string
  | SessionTokenRequestFailed string
  | SessionTokenParseFailed
  | SessionTokenRetriesExhausted
  | AuthenticationFailed go_error
  | InvalidSessionToken string
  | UnableToParse string
  | NoModelsAvailable

fun error_text :: "go_error \<Rightarrow> string" where
  "error_text ContextCanceled = ''context canceled''"
| "error_text (RequestError e) = e"
| "error_text (DeviceCodeRequestFailed e) = ''device code request failed: '' @ e"
| "error_text DeviceCodeParseFailed = ''failed to parse device code response''"
| "error_text (AuthenticationError e) = ''authentication error: '' @ e"
| "error_text (SessionTokenRequestFailed e) = ''session token request failed: '' @ e"
| "error_text SessionTokenParseFailed = ''failed to parse session token response''"
| "error_text SessionTokenRetriesExhausted = ''failed to get session token after retries''"
| "error_text (AuthenticationFailed e) = ''authentication failed: '' @ error_text e"
| "error_text (InvalidSessionToken e) = ''invalid session token: '' @ e"
| "error_text (UnableToParse src) = ''unable to parse response from '' @ src"
| "error_text NoModelsAvailable = ''no models available from any server endpoint''"

text \<open>Package \<open>errors\<close>: the errors of the API.\<close>

record APIError =
  Type :: string
  Message :: string
  Code :: nat

definition NewAuthenticationError :: "string \<Rightarrow> APIError" where
  "NewAuthenticationError message =
     \<lparr>Type = ''authentication_error'', Message = ''Authentication failed: '' @ message,
      Code = 401\<rparr>"

definition NewValidationError :: "string \<Rightarrow> APIError" where
  "NewValidationError message =
     \<lparr>Type = ''validation_error'', Message = ''Request validation failed: '' @ message,
      Code = 400\<rparr>"

definition NewCopilotAPIError :: "string \<Rightarrow> APIError" where
  "NewCopilotAPIError message =
     \<lparr>Type = ''copilot_api_error'', Message = ''GitHub Copilot API error: '' @ message,
      Code = 502\<rparr>"

text \<open>How a call ends: it returns a value, returns an error, or panics.\<close>

datatype ('e, 'a) outcome = Returned 'a | Failed 'e | Panicked string

section \<open>The world: the provider and the token file\<close>

text \<open>
  What the provider will answer is a script, one event for each request in the order the
  requests are made: the transport fails, or a response arrives with a status and a body.
  \<open>CtxDone\<close> at the head of the script says that the caller's context is done from
  here on. When the script is used up, every further request fails at the transport. The
  world also records the requests made (method and URL), the content of the token file
  (\<open>None\<close> when it cannot be read), whether the file can be written, and the clock.
\<close>

datatype net_event = CtxDone | TransportError string | HttpResponse nat string

record World =
  script :: "net_event list"
  requests :: "(string \<times> string) list"
  token_file :: "string option"
  file_writable :: bool
  clock :: Time

text \<open>
  \<open>makeRequest\<close>: the error of the transport as it is, a status of 400 or more as the
  error \<open>HTTP status: body\<close>, otherwise the body. A request under a context that is done
  fails without reaching the provider.
\<close>

definition makeRequest :: "World \<Rightarrow> string \<Rightarrow> string \<Rightarrow> (string + string) \<times> World" where
  "makeRequest w method url =
     (case script w of
        [] \<Rightarrow> (Inl ''connection refused'', w\<lparr>requests := requests w @ [(method, url)]\<rparr>)
      | CtxDone # rest \<Rightarrow> (Inl ''context canceled'', w)
      | TransportError e # rest \<Rightarrow>
          (Inl e, w\<lparr>script := rest, requests := requests w @ [(method, url)]\<rparr>)
      | HttpResponse status body # rest \<Rightarrow>
          (if 400 \<le> status then Inl (''HTTP '' @ show_nat status @ '': '' @ body) else Inr body,
           w\<lparr>script := rest, requests := requests w @ [(method, url)]\<rparr>))"

text \<open>\<open>saveAccessToken\<close>: \<open>False\<close> is the error of \<open>os.WriteFile\<close>.\<close>

definition saveAccessToken :: "World \<Rightarrow> string \<Rightarrow> bool \<times> World" where
  "saveAccessToken w token =
     (if file_writable w then (True, w\<lparr>token_file := Some token\<rparr>) else (False, w))"

section \<open>\<open>Setup\<close>: the device flow\<close>

text \<open>
  \<open>time.Duration(interval) * time.Second\<close> in 64 bits; \<open>time.NewTicker\<close> panics
  unless it is positive.
\<close>

definition wrap_int64 :: "int \<Rightarrow> int" where
  "wrap_int64 x = (x + 2 ^ 63) mod 2 ^ 64 - 2 ^ 63"

definition ticker_duration :: "int \<Rightarrow> int" where
  "ticker_duration interval = wrap_int64 (interval * time_Second)"

text \<open>
  The polling loop, one turn for each event of the script: a context that is done ends
  it with the context's error; otherwise the ticker fires and the token endpoint is asked.
  A failed request, a response that does not parse and a response with neither field
  continue the loop, as \<open>authorization_pending\<close> does. \<open>None\<close>: the loop does not
  return, because the script is used up, every further request fails and the context is
  never done.
\<close>

function Setup_poll ::
  "Client \<Rightarrow> World \<Rightarrow> ((go_error, unit) outcome \<times> Client \<times> World) option" where
  "Setup_poll c w =
     (case script w of
        [] \<Rightarrow> None
      | ev # evs \<Rightarrow>
          if ev = CtxDone then Some (Failed ContextCanceled, c, w)
          else (case makeRequest w ''POST'' AccessTokenURL of
                  (Inl e, w') \<Rightarrow> Setup_poll c w'
                | (Inr tokenResp, w') \<Rightarrow>
                    (case json_Unmarshal_AccessTokenResponse tokenResp of
                       None \<Rightarrow> Setup_poll c w'
                     | Some tokenData \<Rightarrow>
                         (case AccessToken tokenData of
                            Some tok \<Rightarrow>
                              Some (Returned (), c\<lparr>accessToken := tok\<rparr>,
                                    snd (saveAccessToken w' tok))
                          | None \<Rightarrow>
                              (case Error tokenData of
                                 Some e \<Rightarrow>
                                   if e = ''authorization_pending'' then Setup_poll c w'
                                   else Some (Failed (AuthenticationError e), c, w')
                               | None \<Rightarrow> Setup_poll c w')))))"
  by pat_completeness auto
termination
  by (relation "measure (\<lambda>(c, w). length (script w))")
     (auto simp: makeRequest_def split: net_event.splits if_splits)

declare Setup_poll.simps [simp del]

definition Setup ::
  "Client \<Rightarrow> World \<Rightarrow> ((go_error, unit) outcome \<times> Client \<times> World) option" where
  "Setup c w =
     (case makeRequest w ''POST'' DeviceCodeURL of
        (Inl e, w') \<Rightarrow> Some (Failed (DeviceCodeRequestFailed e), c, w')
      | (Inr deviceResp, w') \<Rightarrow>
          (case json_Unmarshal_DeviceCodeResponse deviceResp of
             None \<Rightarrow> Some (Failed DeviceCodeParseFailed, c, w')
           | Some deviceData \<Rightarrow>
               if ticker_duration (Interval deviceData) \<le> 0
               then Some (Panicked ''non-positive interval for NewTicker'', c, w')
               else Setup_poll c w'))"

section \<open>The session token and its expiry\<close>

text \<open>\<open>extractExpValueLegacy\<close>: the first pair \<open>exp=...\<close> of the token, cut at
  semicolons, whose value is a time of RFC 3339.\<close>

fun legacy_scan :: "string list \<Rightarrow> Time option" where
  "legacy_scan [] = None"
| "legacy_scan (pair # pairs) =
     (case strings_SplitN2 pair (CHR ''='') of
        None \<Rightarrow> legacy_scan pairs
      | Some (k, v) \<Rightarrow>
          if strings_TrimSpace k = ''exp'' then
            (case time_Parse_RFC3339 (strings_TrimSpace v) of
               Some expiry \<Rightarrow> Some expiry
             | None \<Rightarrow> legacy_scan pairs)
          else legacy_scan pairs)"

definition extractExpValueLegacy :: "string \<Rightarrow> Time option" where
  "extractExpValueLegacy token = legacy_scan (strings_Split token (CHR '';''))"

text \<open>The middle segment with \<open>=\<close> added up to a multiple of four characters.\<close>

definition pad_payload :: "string \<Rightarrow> string" where
  "pad_payload payload =
     (if 4 - length payload mod 4 \<noteq> 4
      then payload @ replicate (4 - length payload mod 4) (CHR ''='')
      else payload)"

text \<open>\<open>extractExpFromJWT\<close>. The second component is the error, which is always
  \<open>nil\<close>.\<close>

definition extractExpFromJWT :: "string \<Rightarrow> Time option \<times> go_error option" where
  "extractExpFromJWT token =
     (case strings_Split token (CHR ''.'') of
        [header, payload, signature] \<Rightarrow>
          (case base64_URLEncoding_DecodeString (pad_payload payload) of
             None \<Rightarrow> (extractExpValueLegacy token, None)
           | Some decoded \<Rightarrow>
               (case json_Unmarshal_JWTClaims decoded of
                  None \<Rightarrow> (extractExpValueLegacy token, None)
                | Some claims \<Rightarrow> (Some (time_Unix (Exp claims) 0), None)))
      | _ \<Rightarrow> (extractExpValueLegacy token, None))"

text \<open>
  The loop \<open>for retries := 3; retries > 0; retries--\<close> of \<open>GetSessionToken\<close>. Every
  path through its body returns, so the body runs at most once.
\<close>

fun session_token_loop ::
  "nat \<Rightarrow> Client \<Rightarrow> World \<Rightarrow> (go_error, unit) outcome \<times> Client \<times> World" where
  "session_token_loop 0 c w = (Failed SessionTokenRetriesExhausted, c, w)"
| "session_token_loop (Suc retries) c w =
     (case makeRequest w ''GET'' SessionTokenURL of
        (Inl e, w') \<Rightarrow> (Failed (SessionTokenRequestFailed e), c, w')
      | (Inr resp, w') \<Rightarrow>
          (case json_Unmarshal_SessionTokenResponse resp of
             None \<Rightarrow> (Failed SessionTokenParseFailed, c, w')
           | Some tokenData \<Rightarrow>
               (Returned (),
                (case extractExpFromJWT (Token tokenData) of
                   (Some expiry, None) \<Rightarrow> c\<lparr>expiresAt := Some expiry\<rparr>
                 | _ \<Rightarrow> c)\<lparr>sessionToken := Token tokenData\<rparr>,
                w')))"

definition GetSessionToken ::
  "Client \<Rightarrow> World \<Rightarrow> ((go_error, unit) outcome \<times> Client \<times> World) option" where
  "GetSessionToken c w =
     (if accessToken c = [] then
        (case token_file w of
           None \<Rightarrow> Setup c w
         | Some data \<Rightarrow> Some (session_token_loop 3 (c\<lparr>accessToken := strings_TrimSpace data\<rparr>) w))
      else Some (session_token_loop 3 c w))"

definition isTokenValid :: "Client \<Rightarrow> World \<Rightarrow> bool" where
  "isTokenValid c w =
     (if sessionToken c = [] then False
      else (case expiresAt c of
              None \<Rightarrow> False
            | Some e \<Rightarrow>
                time_Before (time_Add (clock w) (TokenRefreshBufferSeconds * time_Second)) e))"

text \<open>\<open>NewClient\<close>, after the data directory has been made.\<close>

definition NewClient :: "Config \<Rightarrow> Client" where
  "NewClient cfg = \<lparr>config = cfg, accessToken = [], sessionToken = [], expiresAt = None\<rparr>"

section \<open>Completions\<close>

text \<open>
  The body of the loop of \<open>parseStreamingResponse\<close>: what one line adds to the result.
\<close>

definition first_choice_text :: "(string \<times> json) list \<Rightarrow> string option" where
  "first_choice_text data =
     (case map_get data ''choices'' of
        Some (JArr (choice # rest)) \<Rightarrow>
          (case choice of
             JObj cm \<Rightarrow>
               (case map_get cm ''text'' of
                  Some (JStr text) \<Rightarrow> Some text
                | _ \<Rightarrow> None)
           | _ \<Rightarrow> None)
      | _ \<Rightarrow> None)"

definition stream_line :: "string \<Rightarrow> string \<Rightarrow> string" where
  "stream_line result line =
     (if strings_HasPrefix line ''data: {'' then
        (case json_Unmarshal_map (drop 6 line) of
           None \<Rightarrow> result
         | Some data \<Rightarrow>
             (case first_choice_text data of
                Some text \<Rightarrow> result @ text
              | None \<Rightarrow> result))
      else result)"

definition parseStreamingResponse :: "string \<Rightarrow> string \<times> go_error option" where
  "parseStreamingResponse responseText =
     (foldl stream_line [] (strings_Split responseText (CHR 0x0A)), None)"

text \<open>\<open>GetCompletion\<close>, from the point where the session token is in place.\<close>

definition complete_with_token ::
  "Client \<Rightarrow> World \<Rightarrow> CompletionRequest \<Rightarrow> (APIError, string) outcome \<times> Client \<times> World" where
  "complete_with_token c w req =
     (if sessionToken c = [] then
        (Failed (NewAuthenticationError ''No session token available''), c, w)
      else (case makeRequest w ''POST'' CompletionsURL of
              (Inl e, w') \<Rightarrow>
                (Failed (NewCopilotAPIError (''Completion request failed: '' @ e)), c, w')
            | (Inr resp, w') \<Rightarrow> (Returned (fst (parseStreamingResponse resp)), c, w')))"

definition GetCompletion ::
  "Client \<Rightarrow> World \<Rightarrow> CompletionRequest
     \<Rightarrow> ((APIError, string) outcome \<times> Client \<times> World) option" where
  "GetCompletion c w req =
     (if int (length (Prompt req)) > MaxPromptLength (config c) then
        Some (Failed (NewValidationError
                (''Prompt too long: '' @ show_nat (length (Prompt req))
                 @ '' characters (max: '' @ show_int (MaxPromptLength (config c)) @ '')'')),
              c, w)
      else if \<not> isTokenValid c w then
        (case GetSessionToken c w of
           None \<Rightarrow> None
         | Some (Failed err, c', w') \<Rightarrow>
             Some (Failed (NewAuthenticationError (error_text err)), c', w')
         | Some (Panicked p, c', w') \<Rightarrow> Some (Panicked p, c', w')
         | Some (Returned u, c', w') \<Rightarrow> Some (complete_with_token c' w' req))
      else Some (complete_with_token c w req))"

section \<open>Model discovery\<close>

text \<open>
  \<open>deduplicateModels\<close>: the body of its loop, on the map \<open>seen\<close> (a key that is not
  in a Go map reads as \<open>false\<close>) and the result so far.
\<close>

definition dedup_step ::
  "(string \<Rightarrow> bool) \<times> ModelInfo list \<Rightarrow> ModelInfo \<Rightarrow> (string \<Rightarrow> bool) \<times> ModelInfo list" where
  "dedup_step st model =
     (case st of (seen, result) \<Rightarrow>
        if \<not> seen (ID model) then (seen(ID model := True), result @ [model])
        else (seen, result))"

definition deduplicateModels :: "ModelInfo list \<Rightarrow> ModelInfo list" where
  "deduplicateModels models = snd (foldl dedup_step (\<lambda>k. False, []) models)"

text \<open>
  The models whose identifier is not in \<open>S\<close> and has not occurred before, in order:
  what the claim about deduplication describes.
\<close>

fun first_seen :: "string set \<Rightarrow> ModelInfo list \<Rightarrow> ModelInfo list" where
  "first_seen S [] = []"
| "first_seen S (m # ms) =
     (if ID m \<in> S then first_seen S ms else m # first_seen (insert (ID m) S) ms)"

definition model_of_name :: "Time \<Rightarrow> string \<Rightarrow> ModelInfo" where
  "model_of_name now name =
     \<lparr>ID = name, Object = ''model'', Created = now div time_Second, OwnedBy = ''github'',
      Permission = [], Root = name, Parent = None\<rparr>"

text \<open>\<open>parseModelsResponse\<close>: the models and the error, one of them empty.\<close>

definition parseModelsResponse ::
  "string \<Rightarrow> string \<Rightarrow> Time \<Rightarrow> ModelInfo list \<times> go_error option" where
  "parseModelsResponse resp source now =
     (case json_Unmarshal_data resp of
        Some (m # ms) \<Rightarrow> (m # ms, None)
      | _ \<Rightarrow>
          (case json_Unmarshal_ModelInfos resp of
             Some (m # ms) \<Rightarrow> (m # ms, None)
           | _ \<Rightarrow>
               (case json_Unmarshal_strings resp of
                  Some (n # ns) \<Rightarrow> (map (model_of_name now) (n # ns), None)
                | _ \<Rightarrow> ([], Some (UnableToParse source)))))"

definition tryModelsEndpoint ::
  "World \<Rightarrow> string \<Rightarrow> string \<Rightarrow> (ModelInfo list \<times> go_error option) \<times> World" where
  "tryModelsEndpoint w sessionTok modelsURL =
     (case makeRequest w ''GET'' modelsURL of
        (Inl e, w') \<Rightarrow> (([], Some (RequestError e)), w')
      | (Inr resp, w') \<Rightarrow> (parseModelsResponse resp modelsURL (clock w'), w'))"

definition testSessionTokenWithCompletions :: "World \<Rightarrow> string \<Rightarrow> go_error option \<times> World" where
  "testSessionTokenWithCompletions w sessionTok =
     (case makeRequest w ''POST'' CompletionsURL of
        (Inl e, w') \<Rightarrow> (Some (InvalidSessionToken e), w')
      | (Inr resp, w') \<Rightarrow> (None, w'))"

definition endpoints :: "(string \<times> string) list" where
  "endpoints =
     [(''GitHub Copilot API'', ModelsURL),
      (''Copilot Proxy Models'', ModelsURLAlt),
      (''GitHub Copilot Individual'', ''https://api.githubcopilot.com/models''),
      (''GitHub Copilot Business'', ''https://api.business.githubcopilot.com/models''),
      (''GitHub Copilot Enterprise'', ''https://api.enterprise.githubcopilot.com/models'')]"

text \<open>The loop over the endpoints of \<open>fetchModelsFromMultipleSources\<close>.\<close>

fun try_endpoints ::
  "(string \<times> string) list \<Rightarrow> string \<Rightarrow> World \<Rightarrow> (ModelInfo list \<times> go_error option) \<times> World" where
  "try_endpoints [] sessionTok w = (([], Some NoModelsAvailable), w)"
| "try_endpoints (endpoint # rest) sessionTok w =
     (case tryModelsEndpoint w sessionTok (snd endpoint) of
        ((models, err), w') \<Rightarrow>
          if err = None \<and> models \<noteq> [] then ((deduplicateModels models, None), w')
          else try_endpoints rest sessionTok w')"

definition fetch_with_token ::
  "Client \<Rightarrow> World \<Rightarrow> (ModelInfo list \<times> go_error option) \<times> World" where
  "fetch_with_token c w =
     try_endpoints endpoints (sessionToken c)
       (snd (testSessionTokenWithCompletions w (sessionToken c)))"

definition fetchModelsFromMultipleSources ::
  "Client \<Rightarrow> World
     \<Rightarrow> ((go_error, ModelInfo list) outcome \<times> Client \<times> World) option" where
  "fetchModelsFromMultipleSources c w =
     (if \<not> isTokenValid c w then
        (case GetSessionToken c w of
           None \<Rightarrow> None
         | Some (Failed err, c', w') \<Rightarrow> Some (Failed (AuthenticationFailed err), c', w')
         | Some (Panicked p, c', w') \<Rightarrow> Some (Panicked p, c', w')
         | Some (Returned u, c', w') \<Rightarrow>
             (case fetch_with_token c' w' of
                ((models, None), w'') \<Rightarrow> Some (Returned models, c', w'')
              | ((models, Some err), w'') \<Rightarrow> Some (Failed err, c', w'')))
      else (case fetch_with_token c w of
              ((models, None), w'') \<Rightarrow> Some (Returned models, c, w'')
            | ((models, Some err), w'') \<Rightarrow> Some (Failed err, c, w'')))"

definition GetAvailableModels ::
  "Client \<Rightarrow> World \<Rightarrow> ((go_error, ModelInfo list) outcome \<times> Client \<times> World) option" where
  "GetAvailableModels c w =
     (case fetchModelsFromMultipleSources c w of
        None \<Rightarrow> None
      | Some (Returned models, c', w') \<Rightarrow> Some (Returned models, c', w')
      | Some (Failed err, c', w') \<Rightarrow> Some (Returned [], c', w')
      | Some (Panicked p, c', w') \<Rightarrow> Some (Panicked p, c', w'))"

section \<open>Notions the claims are stated with\<close>

text \<open>
  The expiry one pair \<open>key=value\<close> of a legacy token holds: the key is \<open>exp\<close> up to
  white space and the value is a time of RFC 3339.
\<close>

definition pair_expiry :: "string \<Rightarrow> Time option" where
  "pair_expiry pair =
     (case strings_SplitN2 pair (CHR ''='') of
        None \<Rightarrow> None
      | Some (k, v) \<Rightarrow>
          if strings_TrimSpace k = ''exp'' then time_Parse_RFC3339 (strings_TrimSpace v)
          else None)"





text \<open>
  What \<open>tryModelsEndpoint\<close> returns for a URL when the provider's answer is the given
  event, and whether that makes the endpoint the one that is used.
\<close>

definition endpoint_result ::
  "net_event \<Rightarrow> string \<Rightarrow> Time \<Rightarrow> ModelInfo list \<times> go_error option" where
  "endpoint_result ev url now =
     (case ev of
        CtxDone \<Rightarrow> ([], Some (RequestError ''context canceled''))
      | TransportError e \<Rightarrow> ([], Some (RequestError e))
      | HttpResponse status body \<Rightarrow>
          if 400 \<le> status
          then ([], Some (RequestError (''HTTP '' @ show_nat status @ '': '' @ body)))
          else parseModelsResponse body url now)"

definition yields_models :: "ModelInfo list \<times> go_error option \<Rightarrow> bool" where
  "yields_models r = (snd r = None \<and> fst r \<noteq> [])"

definition fails_endpoint :: "Time \<Rightarrow> net_event \<Rightarrow> string \<times> string \<Rightarrow> bool" where
  "fails_endpoint now ev ep =
     (ev \<noteq> CtxDone \<and> \<not> yields_models (endpoint_result ev (snd ep) now))"

text \<open>
  Modelled from the spec: what one line of the stream contributes, in the words of the
  description of the stream. A line that begins with the event-data marker \<open>data: \<close>
  is selected, the marker is stripped, and the remaining payload is decoded; when the
  decoding succeeds and there is a first choice with a text, the line contributes that
  text, and nothing otherwise.
\<close>

definition event_data_marker :: string where
  "event_data_marker = ''data: ''"

definition spec_event_text :: "string \<Rightarrow> string" where
  "spec_event_text line =
     (if strings_HasPrefix line event_data_marker then
        (case json_Unmarshal_map (drop (length event_data_marker) line) of
           None \<Rightarrow> []
         | Some data \<Rightarrow> (case first_choice_text data of Some text \<Rightarrow> text | None \<Rightarrow> []))
      else [])"

section \<open>Inputs of the examples\<close>

definition cfg0 :: Config where
  "cfg0 = \<lparr>Port = 8080, ClientID = ''Iv1.b507a08c87ecfe98'', DataDir = ''/tmp/reai'',
           LogLevel = ''info'', RateLimit = 100, MaxPromptLength = 8192\<rparr>"

definition world0 :: "net_event list \<Rightarrow> World" where
  "world0 sc = \<lparr>script = sc, requests = [], token_file = None, file_writable = True,
                clock = 1700000000 * time_Second\<rparr>"

definition client1 :: Client where
  "client1 = (NewClient cfg0)\<lparr>accessToken := ''gho_access''\<rparr>"

definition long_request :: CompletionRequest where
  "long_request = \<lparr>Prompt = replicate 8193 (CHR ''x''), Language = ''go'', MaxTokens = 16,
                    Temperature = 0, Stream = False\<rparr>"

definition stream_example :: string where
  \<open>stream_example =
     ''data: {"choices":[{"text":"ab"}]}\<newline>garbage\<newline>data: {"choices":[{"text":"cd"}]}\<newline>''\<close>

definition m1 :: ModelInfo where
  "m1 = zero_ModelInfo\<lparr>ID := ''gpt-4'', Root := ''first''\<rparr>"

definition m2 :: ModelInfo where
  "m2 = zero_ModelInfo\<lparr>ID := ''claude''\<rparr>"

definition m3 :: ModelInfo where
  "m3 = zero_ModelInfo\<lparr>ID := ''gpt-4'', Root := ''second''\<rparr>"


section \<open>Deduplication of the model list\<close>

lemma dedup_foldl:
  "snd (foldl dedup_step (seen, acc) ms) = acc @ first_seen {k. seen k} ms"
proof (induction ms arbitrary: seen acc)
  case Nil
  show ?case by simp
next
  case (Cons m ms)
  show ?case
  proof (cases "seen (ID m)")
    case True
    then have "dedup_step (seen, acc) m = (seen, acc)" by (simp add: dedup_step_def)
    with True show ?thesis using Cons.IH [of seen acc] by simp
  next
    case False
    then have step: "dedup_step (seen, acc) m = (seen(ID m := True), acc @ [m])"
      by (simp add: dedup_step_def)
    have eq: "{k. (seen(ID m := True)) k} = insert (ID m) {k. seen k}" by auto
    from False show ?thesis
      using Cons.IH [of "seen(ID m := True)" "acc @ [m]"] by (simp only: foldl_Cons step eq) simp
  qed
qed

lemma deduplicateModels_first_seen: "deduplicateModels ms = first_seen {} ms"
  using dedup_foldl [of "\<lambda>k. False" "[]" ms]
  by (simp add: deduplicateModels_def)

lemma first_seen_notin: "m \<in> set (first_seen S ms) \<Longrightarrow> ID m \<notin> S"
  by (induction ms arbitrary: S) (auto split: if_splits)

lemma first_seen_ids: "ID ` set (first_seen S ms) = ID ` set ms - S"
  by (induction ms arbitrary: S) auto

lemma first_seen_distinct: "distinct (map ID (first_seen S ms))"
proof (induction ms arbitrary: S)
  case Nil
  show ?case by simp
next
  case (Cons a ms)
  have "ID a \<notin> ID ` set (first_seen (insert (ID a) S) ms)"
  proof
    assume "ID a \<in> ID ` set (first_seen (insert (ID a) S) ms)"
    then obtain x where x: "x \<in> set (first_seen (insert (ID a) S) ms)" "ID x = ID a"
      by auto
    from first_seen_notin [OF x(1)] x(2) show False by simp
  qed
  with Cons.IH show ?case by simp
qed

lemma first_seen_subseq: "subseq (first_seen S ms) ms"
  by (induction ms arbitrary: S) auto

lemma first_seen_find:
  "m \<in> set (first_seen S ms) \<Longrightarrow> find (\<lambda>x. ID x = ID m) ms = Some m"
proof (induction ms arbitrary: S)
  case Nil
  then show ?case by simp
next
  case (Cons a ms)
  show ?case
  proof (cases "ID a = ID m")
    case True
    have "m \<notin> set (first_seen (insert (ID a) S) ms)"
      using first_seen_notin [of m "insert (ID a) S" ms] True by auto
    moreover have "m \<notin> set (first_seen S ms)" if "ID a \<in> S"
      using first_seen_notin [of m S ms] True that by auto
    ultimately have "m = a" using Cons.prems by (auto split: if_splits)
    then show ?thesis by simp
  next
    case False
    then have "m \<in> set (first_seen S ms) \<or> m \<in> set (first_seen (insert (ID a) S) ms)"
      using Cons.prems by (auto split: if_splits)
    then have "find (\<lambda>x. ID x = ID m) ms = Some m" using Cons.IH by blast
    with False show ?thesis by simp
  qed
qed

text \<open>
  Claim C9. For every list of model descriptors, the result of \<open>deduplicateModels\<close>
  has each identifier of the list exactly once (its identifiers are distinct and are
  those of the list), is a subsequence of the list (so the relative order is kept), and
  each descriptor it keeps is the first one of the list with that identifier.
\<close>

theorem deduplicateModels_keeps_first_occurrences:
  "distinct (map ID (deduplicateModels ms))
   \<and> set (map ID (deduplicateModels ms)) = set (map ID ms)
   \<and> subseq (deduplicateModels ms) ms
   \<and> (\<forall>m \<in> set (deduplicateModels ms). find (\<lambda>x. ID x = ID m) ms = Some m)"
  by (simp add: deduplicateModels_first_seen first_seen_distinct first_seen_ids
        first_seen_subseq first_seen_find)

text \<open>
  On \<open>gpt-4, claude, gpt-4, claude\<close> the first \<open>gpt-4\<close> and the first \<open>claude\<close>
  are kept.
\<close>

theorem deduplicateModels_witness:
  "deduplicateModels [m1, m2, m3, m2] = [m1, m2]
   \<and> distinct (map ID (deduplicateModels [m1, m2, m3, m2]))
   \<and> set (map ID (deduplicateModels [m1, m2, m3, m2])) = {''gpt-4'', ''claude''}
   \<and> subseq (deduplicateModels [m1, m2, m3, m2]) [m1, m2, m3, m2]
   \<and> find (\<lambda>x. ID x = ID m1) [m1, m2, m3, m2] = Some m1
   \<and> find (\<lambda>x. ID x = ID m2) [m1, m2, m3, m2] = Some m2"
proof -
  have ev: "deduplicateModels [m1, m2, m3, m2] = [m1, m2]"
    by (simp add: deduplicateModels_def dedup_step_def m1_def m2_def m3_def zero_ModelInfo_def)
  have ids: "set (map ID [m1, m2, m3, m2]) = {''gpt-4'', ''claude''}"
    by (auto simp: m1_def m2_def m3_def zero_ModelInfo_def)
  from deduplicateModels_keeps_first_occurrences [of "[m1, m2, m3, m2]"] ev ids
  show ?thesis by simp
qed

section \<open>The validity check\<close>

text \<open>
  Claim C10. In every state of the client in which the session token is the empty
  string or no expiry is recorded, \<open>isTokenValid\<close> is false, whatever the clock says.
\<close>

theorem isTokenValid_needs_token_and_expiry:
  assumes "sessionToken c = [] \<or> expiresAt c = None"
  shows "\<not> isTokenValid c w"
  using assms by (auto simp: isTokenValid_def split: option.splits)

text \<open>The client as \<open>NewClient\<close> makes it has neither, so its first use acquires a
  token.\<close>

theorem isTokenValid_new_client_witness:
  "(sessionToken (NewClient cfg0) = [] \<or> expiresAt (NewClient cfg0) = None)
   \<and> \<not> isTokenValid (NewClient cfg0) (world0 [])"
proof -
  have h: "sessionToken (NewClient cfg0) = [] \<or> expiresAt (NewClient cfg0) = None"
    by (simp add: NewClient_def)
  from isTokenValid_needs_token_and_expiry [OF h, of "world0 []"] h show ?thesis by simp
qed

section \<open>Evaluating the model on given inputs\<close>

lemmas char_eval = ord_def isDigit_def digit_val_def byte_of_def decimal_def

lemmas json_syntax_eval =
  is_json_ws_def isHex_def hex_val_def hex4_def exp_ok_def frac_exp_ok_def valid_number_def
  is_numchar_def simple_escape_def utf8_encode_def replacement_char_def byte_in_def
  utf8_len_def low_surrogate_escape_def top_step_def lex_step_def lex_end_def json_parse_def
  json_of_tokens_def pstep_def step_after_def step_key_def step_value_def push_def
  reduce_def scalar_def maxNestingDepth_def

lemmas json_store_eval =
  parse_int64_def dec_string_def dec_int64_def dec_string_ptr_def dec_int64_ptr_def
  float64_ok_def dec_interfaces_def toLower_def unmarshal_struct_def unmarshal_slice_def
  json_Unmarshal_map_def map_get_def Let_def

lemmas time_eval =
  time_Parse_RFC3339_def getnum_def skip_def parse_fraction_def parse_zone_def guard_def
  daysIn_def isLeap_def days_from_civil_def time_Unix_def time_Second_def time_Add_def
  time_Before_def

lemmas base64_eval = base64_URLEncoding_DecodeString_def b64url_val_def pad_payload_def

lemma session_response_abc:
  \<open>json_Unmarshal_SessionTokenResponse ''{"token":"abc"}''
     = Some \<lparr>Token = ''abc'', ExpiresAt = None\<rparr>\<close>
  by (simp add: json_Unmarshal_SessionTokenResponse_def set_SessionTokenResponse_def
        json_syntax_eval json_store_eval char_eval)

lemma session_response_jwt:
  \<open>json_Unmarshal_SessionTokenResponse
      ''{"token":"a.eyJleHAiOjE3MDAwMDE4MDB9.b","expires_at":1700001800}''
     = Some \<lparr>Token = ''a.eyJleHAiOjE3MDAwMDE4MDB9.b'', ExpiresAt = Some 1700001800\<rparr>\<close>
  by (simp add: json_Unmarshal_SessionTokenResponse_def set_SessionTokenResponse_def
        json_syntax_eval json_store_eval char_eval)

lemma legacy_abc: "extractExpValueLegacy ''abc'' = None"
  by (simp add: extractExpValueLegacy_def)

lemma extract_abc: "extractExpFromJWT ''abc'' = (None, None)"
  by (simp add: extractExpFromJWT_def legacy_abc)

lemma claims_1700001800:
  \<open>json_Unmarshal_JWTClaims ''{"exp":1700001800}'' = Some \<lparr>Exp = 1700001800\<rparr>\<close>
  by (simp add: json_Unmarshal_JWTClaims_def set_JWTClaims_def
        json_syntax_eval json_store_eval char_eval)

lemma decode_1700001800:
  \<open>base64_URLEncoding_DecodeString (pad_payload ''eyJleHAiOjE3MDAwMDE4MDB9'')
     = Some ''{"exp":1700001800}''\<close>
  by (simp add: base64_eval char_eval)

lemma extract_jwt:
  "extractExpFromJWT ''a.eyJleHAiOjE3MDAwMDE4MDB9.b'' = (Some (time_Unix 1700001800 0), None)"
  by (simp add: extractExpFromJWT_def decode_1700001800 claims_1700001800)

section \<open>Acquiring the session token\<close>

text \<open>
  Claim C1 (the code does not do what the claim says). The token \<open>abc\<close> is no signed
  token of three segments and holds no pair \<open>exp=...\<close>, so both extractions yield
  nothing. \<open>GetSessionToken\<close> then stores the token and leaves the expiry as it was:
  on a client without an expiry it stays unset, and is not the clock plus
  \<open>DefaultTokenLifetimeSeconds\<close>.
\<close>

theorem GetSessionToken_no_fallback_lifetime:
  \<open>fst (extractExpFromJWT ''abc'') = None
   \<and> extractExpValueLegacy ''abc'' = None
   \<and> GetSessionToken client1 (world0 [HttpResponse 200 ''{"token":"abc"}''])
       = Some (Returned (), client1\<lparr>sessionToken := ''abc''\<rparr>,
               (world0 [])\<lparr>requests := [(''GET'', SessionTokenURL)]\<rparr>)
   \<and> expiresAt (client1\<lparr>sessionToken := ''abc''\<rparr>) = None
   \<and> expiresAt (client1\<lparr>sessionToken := ''abc''\<rparr>)
       \<noteq> Some (time_Add (clock (world0 [])) (DefaultTokenLifetimeSeconds * time_Second))\<close>
  by (simp add: GetSessionToken_def makeRequest_def world0_def client1_def NewClient_def
        session_response_abc extract_abc legacy_abc numeral_3_eq_3)

text \<open>
  Claim C2 (the code does not do what the claim says). A first acquisition stores a
  signed token and the expiry 1700001800 read from it. A second acquisition, whose token
  \<open>abc\<close> yields no expiry, replaces the token alone: afterwards the client holds the
  new token with the expiry of the token before.
\<close>

theorem GetSessionToken_keeps_stale_expiry:
  \<open>GetSessionToken client1
      (world0 [HttpResponse 200
                 ''{"token":"a.eyJleHAiOjE3MDAwMDE4MDB9.b","expires_at":1700001800}'',
               HttpResponse 200 ''{"token":"abc"}''])
     = Some (Returned (),
             client1\<lparr>expiresAt := Some (time_Unix 1700001800 0),
                      sessionToken := ''a.eyJleHAiOjE3MDAwMDE4MDB9.b''\<rparr>,
             (world0 [HttpResponse 200 ''{"token":"abc"}''])
               \<lparr>requests := [(''GET'', SessionTokenURL)]\<rparr>)
   \<and> GetSessionToken
        (client1\<lparr>expiresAt := Some (time_Unix 1700001800 0),
                 sessionToken := ''a.eyJleHAiOjE3MDAwMDE4MDB9.b''\<rparr>)
        ((world0 [HttpResponse 200 ''{"token":"abc"}''])
           \<lparr>requests := [(''GET'', SessionTokenURL)]\<rparr>)
     = Some (Returned (),
             client1\<lparr>expiresAt := Some (time_Unix 1700001800 0), sessionToken := ''abc''\<rparr>,
             (world0 [])\<lparr>requests := [(''GET'', SessionTokenURL),
                                      (''GET'', SessionTokenURL)]\<rparr>)\<close>
  by (simp add: GetSessionToken_def makeRequest_def world0_def client1_def NewClient_def
        session_response_abc session_response_jwt extract_abc extract_jwt numeral_3_eq_3)

text \<open>
  Claim C3 (the code does not do what the claim says). When the first exchange fails at
  the transport and the provider would answer a second one, \<open>GetSessionToken\<close> returns
  the error after one request and the second answer is never asked for. The loop behaves
  for every positive number of retries as for one.
\<close>

theorem GetSessionToken_single_attempt:
  \<open>GetSessionToken client1
      (world0 [TransportError ''timeout'', HttpResponse 200 ''{"token":"abc"}''])
     = Some (Failed (SessionTokenRequestFailed ''timeout''), client1,
             (world0 [HttpResponse 200 ''{"token":"abc"}''])
               \<lparr>requests := [(''GET'', SessionTokenURL)]\<rparr>)
   \<and> session_token_loop (Suc retries) c w = session_token_loop (Suc 0) c w\<close>
  by (simp add: GetSessionToken_def makeRequest_def world0_def client1_def NewClient_def
        numeral_3_eq_3)

section \<open>Completions\<close>

text \<open>
  Claim C7. For every request whose prompt is longer than the configured maximum,
  \<open>GetCompletion\<close> returns a validation error (status 400), and the client and the
  world are as before: no request was made, nothing of the provider's script was used,
  and the tokens and the expiry are unchanged.
\<close>

theorem GetCompletion_rejects_long_prompt:
  assumes "int (length (Prompt req)) > MaxPromptLength (config c)"
  shows "\<exists>e. GetCompletion c w req = Some (Failed e, c, w)
             \<and> Type e = ''validation_error'' \<and> Code e = 400"
  using assms by (simp add: GetCompletion_def NewValidationError_def)

theorem GetCompletion_rejects_long_prompt_witness:
  \<open>int (length (Prompt long_request)) > MaxPromptLength (config (NewClient cfg0))
   \<and> (\<exists>e. GetCompletion (NewClient cfg0) (world0 [HttpResponse 200 ''{"token":"abc"}''])
               long_request
             = Some (Failed e, NewClient cfg0, world0 [HttpResponse 200 ''{"token":"abc"}''])
           \<and> Type e = ''validation_error'' \<and> Code e = 400)\<close>
proof -
  have h: "int (length (Prompt long_request)) > MaxPromptLength (config (NewClient cfg0))"
    by (simp add: long_request_def NewClient_def cfg0_def)
  from GetCompletion_rejects_long_prompt [OF h] h show ?thesis by blast
qed

lemma stream_line_append: "stream_line acc line = acc @ stream_line [] line"
  by (simp add: stream_line_def split: option.splits)

lemma foldl_stream_line:
  "foldl stream_line acc ls = acc @ concat (map (stream_line []) ls)"
proof (induction ls arbitrary: acc)
  case Nil
  show ?case by simp
next
  case (Cons l ls)
  show ?case
    using Cons.IH [of "stream_line acc l"] stream_line_append [of acc l] by simp
qed

lemma stream_example_lines:
  \<open>strings_Split stream_example (CHR 0x0A)
     = [''data: {"choices":[{"text":"ab"}]}'', ''garbage'',
        ''data: {"choices":[{"text":"cd"}]}'', []]\<close>
  by (simp add: stream_example_def)

lemma stream_line_ab:
  \<open>stream_line [] ''data: {"choices":[{"text":"ab"}]}'' = ''ab''\<close>
  by (simp add: stream_line_def strings_HasPrefix_def first_choice_text_def
        json_syntax_eval json_store_eval char_eval)

lemma stream_line_cd:
  \<open>stream_line [] ''data: {"choices":[{"text":"cd"}]}'' = ''cd''\<close>
  by (simp add: stream_line_def strings_HasPrefix_def first_choice_text_def
        json_syntax_eval json_store_eval char_eval)

lemma stream_line_garbage: \<open>stream_line [] ''garbage'' = []\<close>
  by (simp add: stream_line_def strings_HasPrefix_def)

lemma stream_line_empty: \<open>stream_line [] [] = []\<close>
  by (simp add: stream_line_def strings_HasPrefix_def)

lemma HasPrefix_append:
  assumes "strings_HasPrefix s (p @ q)"
  shows "strings_HasPrefix s p"
proof -
  from assms have "take (length (p @ q)) s = p @ q" by (simp only: strings_HasPrefix_def)
  then have "take (length p) (take (length (p @ q)) s) = take (length p) (p @ q)"
    by (rule arg_cong)
  then show ?thesis by (simp add: strings_HasPrefix_def min_def)
qed

lemma brace_prefix_has_marker:
  assumes "strings_HasPrefix line ''data: {''"
  shows "strings_HasPrefix line event_data_marker"
proof -
  have "''data: {'' = event_data_marker @ ''{''" by (simp add: event_data_marker_def)
  with assms have "strings_HasPrefix line (event_data_marker @ ''{'')" by (simp only:)
  then show ?thesis by (rule HasPrefix_append)
qed

lemma stream_line_spec:
  "stream_line [] line
     = (if strings_HasPrefix line ''data: {'' then spec_event_text line else [])"
proof (cases "strings_HasPrefix line ''data: {''")
  case True
  have len: "length event_data_marker = 6" by (simp add: event_data_marker_def)
  note marker = brace_prefix_has_marker [OF True]
  show ?thesis
    by (simp only: stream_line_def spec_event_text_def True marker len if_True)
       (simp split: option.splits)
next
  case False
  then show ?thesis by (simp add: stream_line_def)
qed

lemma concat_map_filter_lines:
  "concat (map (\<lambda>line. if P line then f line else []) ls) = concat (map f (filter P ls))"
  by (induction ls) simp_all

lemma parseStreamingResponse_lines:
  "parseStreamingResponse s
     = (concat (map spec_event_text
                  (filter (\<lambda>line. strings_HasPrefix line ''data: {'')
                     (strings_Split s (CHR 0x0A)))), None)"
proof -
  have "parseStreamingResponse s
          = (concat (map (stream_line []) (strings_Split s (CHR 0x0A))), None)"
    using foldl_stream_line [of "[]"] by (simp add: parseStreamingResponse_def)
  also have "stream_line [] = (\<lambda>line. if strings_HasPrefix line ''data: {''
                                        then spec_event_text line else [])"
    by (rule ext) (rule stream_line_spec)
  finally show ?thesis by (simp only: concat_map_filter_lines)
qed

lemma concat_map_filter_all:
  "list_all (\<lambda>x. P x \<or> f x = []) ls \<Longrightarrow> concat (map f (filter P ls)) = concat (map f ls)"
  by (induction ls) auto

text \<open>
  Claim C5, as the code has it. The lines that count are those that begin with
  \<open>data: {\<close>, the marker with the opening brace of the payload right after it. For
  every response text, \<open>parseStreamingResponse\<close> returns, with no error, the
  concatenation in order of what these lines contribute in the description of the
  stream: the text of the first choice when the payload, the line without the six bytes
  of the marker, decodes, and nothing when it does not. So the result is the one of the
  description whenever each line either begins with \<open>data: {\<close> or contributes nothing
  there, it is empty when no line contributes, and it is \<open>abcd\<close> on the three lines of
  the example.
\<close>

theorem parseStreamingResponse_concatenates:
  "parseStreamingResponse s
     = (concat (map spec_event_text
                  (filter (\<lambda>line. strings_HasPrefix line ''data: {'')
                     (strings_Split s (CHR 0x0A)))), None)
   \<and> (list_all (\<lambda>line. strings_HasPrefix line ''data: {'' \<or> spec_event_text line = [])
         (strings_Split s (CHR 0x0A))
        \<longrightarrow> parseStreamingResponse s
              = (concat (map spec_event_text (strings_Split s (CHR 0x0A))), None))
   \<and> (list_all (\<lambda>line. spec_event_text line = []) (strings_Split s (CHR 0x0A))
        \<longrightarrow> parseStreamingResponse s = ([], None))
   \<and> parseStreamingResponse stream_example = (''abcd'', None)"
proof -
  have ex: "parseStreamingResponse stream_example = (''abcd'', None)"
    using foldl_stream_line [of "[]"]
    by (simp only: parseStreamingResponse_def stream_example_lines list.map stream_line_ab
          stream_line_cd stream_line_garbage stream_line_empty) simp
  have same: "list_all (\<lambda>line. strings_HasPrefix line ''data: {'' \<or> spec_event_text line = [])
         (strings_Split s (CHR 0x0A))
        \<longrightarrow> parseStreamingResponse s
              = (concat (map spec_event_text (strings_Split s (CHR 0x0A))), None)"
    by (simp only: parseStreamingResponse_lines) (simp add: concat_map_filter_all)
  have none: "list_all (\<lambda>line. spec_event_text line = []) (strings_Split s (CHR 0x0A))
        \<longrightarrow> parseStreamingResponse s = ([], None)"
    by (simp only: parseStreamingResponse_lines) (simp add: list_all_iff)
  from parseStreamingResponse_lines [of s] same none ex show ?thesis by (intro conjI)
qed

lemma spec_event_text_ab:
  \<open>spec_event_text ''data: {"choices":[{"text":"ab"}]}'' = ''ab''\<close>
  by (simp add: spec_event_text_def event_data_marker_def strings_HasPrefix_def
        first_choice_text_def json_syntax_eval json_store_eval char_eval)

lemma spec_event_text_cd:
  \<open>spec_event_text ''data: {"choices":[{"text":"cd"}]}'' = ''cd''\<close>
  by (simp add: spec_event_text_def event_data_marker_def strings_HasPrefix_def
        first_choice_text_def json_syntax_eval json_store_eval char_eval)

lemma spec_event_text_garbage: "spec_event_text ''garbage'' = []"
  by (simp add: spec_event_text_def event_data_marker_def strings_HasPrefix_def)

lemma spec_event_text_empty: "spec_event_text [] = []"
  by (simp add: spec_event_text_def event_data_marker_def strings_HasPrefix_def)

text \<open>
  The example of the claim, where the code and the description agree, and a response of
  one line that is no event: the result is empty, and no error.
\<close>

theorem parseStreamingResponse_witness:
  \<open>list_all (\<lambda>line. strings_HasPrefix line ''data: {'' \<or> spec_event_text line = [])
      (strings_Split stream_example (CHR 0x0A))
   \<and> parseStreamingResponse stream_example
      = (concat (map spec_event_text (strings_Split stream_example (CHR 0x0A))), None)
   \<and> concat (map spec_event_text (strings_Split stream_example (CHR 0x0A))) = ''abcd''
   \<and> list_all (\<lambda>line. spec_event_text line = []) (strings_Split ''garbage\<newline>'' (CHR 0x0A))
   \<and> parseStreamingResponse ''garbage\<newline>'' = ([], None)
   \<and> parseStreamingResponse stream_example = (''abcd'', None)\<close>
proof -
  have h1: "list_all (\<lambda>line. strings_HasPrefix line ''data: {'' \<or> spec_event_text line = [])
      (strings_Split stream_example (CHR 0x0A))"
    by (simp add: stream_example_lines spec_event_text_garbage spec_event_text_empty
          strings_HasPrefix_def)
  have t: "concat (map spec_event_text (strings_Split stream_example (CHR 0x0A))) = ''abcd''"
    by (simp only: stream_example_lines list.map spec_event_text_ab spec_event_text_cd
          spec_event_text_garbage spec_event_text_empty) simp
  have h2: "list_all (\<lambda>line. spec_event_text line = [])
             (strings_Split ''garbage\<newline>'' (CHR 0x0A))"
    by (simp add: spec_event_text_garbage spec_event_text_empty)
  note ex = parseStreamingResponse_concatenates [of stream_example]
  note gb = parseStreamingResponse_concatenates [of "''garbage\<newline>''"]
  from h1 ex [THEN conjunct2, THEN conjunct1, THEN mp, OF h1] t h2
    gb [THEN conjunct2, THEN conjunct2, THEN conjunct1, THEN mp, OF h2]
    ex [THEN conjunct2, THEN conjunct2, THEN conjunct2]
  show ?thesis by (intro conjI)
qed

lemma spaced_payload_decodes:
  \<open>json_Unmarshal_map '' {"choices":[{"text":"x"}]}''
     = Some [(''choices'', JArr [JObj [(''text'', JStr ''x'')]])]\<close>
  by (simp add: json_syntax_eval json_store_eval char_eval)

text \<open>
  Claim C5 as stated fails on an event-data line whose payload has a space before its
  opening brace. The line begins with the marker and its payload decodes, with \<open>x\<close> the
  text of the first choice, so the claim has the result be \<open>x\<close>; the code does not
  select the line and returns the empty string.
\<close>

theorem parseStreamingResponse_spaced_payload_counterexample:
  \<open>strings_HasPrefix ''data:  {"choices":[{"text":"x"}]}'' event_data_marker
   \<and> json_Unmarshal_map (drop (length event_data_marker) ''data:  {"choices":[{"text":"x"}]}'')
      = Some [(''choices'', JArr [JObj [(''text'', JStr ''x'')]])]
   \<and> first_choice_text [(''choices'', JArr [JObj [(''text'', JStr ''x'')]])] = Some ''x''
   \<and> spec_event_text ''data:  {"choices":[{"text":"x"}]}'' = ''x''
   \<and> parseStreamingResponse ''data:  {"choices":[{"text":"x"}]}'' = ([], None)\<close>
proof -
  have m: \<open>strings_HasPrefix ''data:  {"choices":[{"text":"x"}]}'' event_data_marker\<close>
    by (simp add: strings_HasPrefix_def event_data_marker_def)
  have d: \<open>json_Unmarshal_map
             (drop (length event_data_marker) ''data:  {"choices":[{"text":"x"}]}'')
      = Some [(''choices'', JArr [JObj [(''text'', JStr ''x'')]])]\<close>
    by (simp add: event_data_marker_def spaced_payload_decodes)
  have f: "first_choice_text [(''choices'', JArr [JObj [(''text'', JStr ''x'')]])] = Some ''x''"
    by (simp add: first_choice_text_def map_get_def)
  have t: \<open>spec_event_text ''data:  {"choices":[{"text":"x"}]}'' = ''x''\<close>
    by (simp only: spec_event_text_def m d f if_True option.case)
  have r: \<open>parseStreamingResponse ''data:  {"choices":[{"text":"x"}]}'' = ([], None)\<close>
    by (simp add: parseStreamingResponse_def stream_line_def strings_HasPrefix_def)
  from m d f t r show ?thesis by (intro conjI)
qed

section \<open>Extracting the expiry\<close>

lemma claims_fold_other:
  "filter (\<lambda>kv. foldName (fst kv) = ''exp'') ms = []
   \<Longrightarrow> foldl (\<lambda>acc kv. Option.bind acc (set_JWTClaims (fst kv) (snd kv))) (Some cl) ms
         = Some cl"
proof (induction ms)
  case Nil
  show ?case by simp
next
  case (Cons a ms)
  from Cons.prems have a: "foldName (fst a) \<noteq> ''exp''" and rest:
    "filter (\<lambda>kv. foldName (fst kv) = ''exp'') ms = []"
    by (auto split: if_splits)
  from a have "set_JWTClaims (fst a) (snd a) cl = Some cl" by (simp add: set_JWTClaims_def)
  with Cons.IH [OF rest] show ?case by simp
qed

lemma claims_of_members:
  assumes one: "filter (\<lambda>kv. foldName (fst kv) = ''exp'') ms = [(k, JNum lit)]"
    and lit: "parse_int64 lit = Some e"
  shows "unmarshal_struct set_JWTClaims (JObj ms) \<lparr>Exp = 0\<rparr> = Some \<lparr>Exp = e\<rparr>"
proof -
  from one obtain pre post where ms: "ms = pre @ (k, JNum lit) # post"
    and pre: "\<forall>u \<in> set pre. foldName (fst u) \<noteq> ''exp''"
    and key: "foldName k = ''exp''"
    and post: "[] = filter (\<lambda>kv. foldName (fst kv) = ''exp'') post"
    by (auto simp: filter_eq_Cons_iff)
  from pre have pre': "filter (\<lambda>kv. foldName (fst kv) = ''exp'') pre = []"
    by (simp add: filter_empty_conv)
  have field: "set_JWTClaims k (JNum lit) \<lparr>Exp = 0\<rparr> = Some \<lparr>Exp = e\<rparr>"
    using key lit by (simp add: set_JWTClaims_def dec_int64_def)
  show ?thesis
    using claims_fold_other [OF pre', of "\<lparr>Exp = 0\<rparr>"]
      claims_fold_other [OF post [symmetric], of "\<lparr>Exp = e\<rparr>"] field
    by (simp add: unmarshal_struct_def ms)
qed

lemma legacy_scan_find:
  "legacy_scan pairs = Option.bind (find (\<lambda>p. pair_expiry p \<noteq> None) pairs) pair_expiry"
  by (induction pairs) (auto simp: pair_expiry_def split: option.splits)

lemma extract_three_segments:
  assumes "strings_Split token (CHR ''.'') = [header, payload, signature]"
  shows "extractExpFromJWT token =
     (case base64_URLEncoding_DecodeString (pad_payload payload) of
        None \<Rightarrow> (extractExpValueLegacy token, None)
      | Some decoded \<Rightarrow>
          (case json_Unmarshal_JWTClaims decoded of
             None \<Rightarrow> (extractExpValueLegacy token, None)
           | Some claims \<Rightarrow> (Some (time_Unix (Exp claims) 0), None)))"
  using assms by (simp add: extractExpFromJWT_def)

lemma extract_other_segments:
  assumes "length (strings_Split token (CHR ''.'')) \<noteq> 3"
  shows "extractExpFromJWT token = (extractExpValueLegacy token, None)"
  using assms by (auto simp: extractExpFromJWT_def split: list.splits)

text \<open>
  Claim C4, as the code has it. A token of exactly three segments whose middle segment,
  padded to a multiple of four characters, decodes to a JSON object with one expiry
  member holding an integer of 64 bits yields exactly that expiry. A token with another
  number of segments, with a middle segment that does not decode, or with decoded bytes
  that cannot be stored into the claims (no JSON, no object, an expiry of another kind)
  yields what the legacy scan yields: the expiry of the first pair, among the pieces
  between semicolons, that is \<open>exp=\<close> and a time of RFC 3339. In the one case left,
  decoded bytes that can be stored into the claims, the token yields the expiry the claims
  then hold, with no legacy scan: this is 0, the epoch, when the object has no expiry
  member.
\<close>

theorem extractExpFromJWT_tiers:
  "(strings_Split token (CHR ''.'') = [header, payload, signature]
      \<and> base64_URLEncoding_DecodeString (pad_payload payload) = Some decoded
      \<and> json_parse decoded = Some (JObj members)
      \<and> filter (\<lambda>kv. foldName (fst kv) = ''exp'') members = [(k, JNum lit)]
      \<and> parse_int64 lit = Some e
    \<longrightarrow> extractExpFromJWT token = (Some (time_Unix e 0), None))
   \<and> (length (strings_Split token (CHR ''.'')) \<noteq> 3
    \<longrightarrow> extractExpFromJWT token = (extractExpValueLegacy token, None))
   \<and> (strings_Split token (CHR ''.'') = [header, payload, signature]
      \<and> base64_URLEncoding_DecodeString (pad_payload payload) = None
    \<longrightarrow> extractExpFromJWT token = (extractExpValueLegacy token, None))
   \<and> (strings_Split token (CHR ''.'') = [header, payload, signature]
      \<and> base64_URLEncoding_DecodeString (pad_payload payload) = Some decoded
      \<and> json_Unmarshal_JWTClaims decoded = None
    \<longrightarrow> extractExpFromJWT token = (extractExpValueLegacy token, None))
   \<and> (strings_Split token (CHR ''.'') = [header, payload, signature]
      \<and> base64_URLEncoding_DecodeString (pad_payload payload) = Some decoded
      \<and> json_Unmarshal_JWTClaims decoded = Some claims
    \<longrightarrow> extractExpFromJWT token = (Some (time_Unix (Exp claims) 0), None))
   \<and> extractExpValueLegacy token
       = Option.bind (find (\<lambda>p. pair_expiry p \<noteq> None) (strings_Split token (CHR '';'')))
           pair_expiry"
proof (intro conjI impI)
  assume h: "strings_Split token (CHR ''.'') = [header, payload, signature]
      \<and> base64_URLEncoding_DecodeString (pad_payload payload) = Some decoded
      \<and> json_parse decoded = Some (JObj members)
      \<and> filter (\<lambda>kv. foldName (fst kv) = ''exp'') members = [(k, JNum lit)]
      \<and> parse_int64 lit = Some e"
  then have "json_Unmarshal_JWTClaims decoded = Some \<lparr>Exp = e\<rparr>"
    using claims_of_members [of members k lit e] by (simp add: json_Unmarshal_JWTClaims_def)
  with h show "extractExpFromJWT token = (Some (time_Unix e 0), None)"
    using extract_three_segments [of token header payload signature] by simp
next
  assume "length (strings_Split token (CHR ''.'')) \<noteq> 3"
  then show "extractExpFromJWT token = (extractExpValueLegacy token, None)"
    by (rule extract_other_segments)
next
  assume "strings_Split token (CHR ''.'') = [header, payload, signature]
      \<and> base64_URLEncoding_DecodeString (pad_payload payload) = None"
  then show "extractExpFromJWT token = (extractExpValueLegacy token, None)"
    using extract_three_segments [of token header payload signature] by simp
next
  assume "strings_Split token (CHR ''.'') = [header, payload, signature]
      \<and> base64_URLEncoding_DecodeString (pad_payload payload) = Some decoded
      \<and> json_Unmarshal_JWTClaims decoded = None"
  then show "extractExpFromJWT token = (extractExpValueLegacy token, None)"
    using extract_three_segments [of token header payload signature] by simp
next
  assume "strings_Split token (CHR ''.'') = [header, payload, signature]
      \<and> base64_URLEncoding_DecodeString (pad_payload payload) = Some decoded
      \<and> json_Unmarshal_JWTClaims decoded = Some claims"
  then show "extractExpFromJWT token = (Some (time_Unix (Exp claims) 0), None)"
    using extract_three_segments [of token header payload signature] by simp
next
  show "extractExpValueLegacy token
       = Option.bind (find (\<lambda>p. pair_expiry p \<noteq> None) (strings_Split token (CHR '';'')))
           pair_expiry"
    by (simp add: extractExpValueLegacy_def legacy_scan_find)
qed

lemma parse_claims_1700001800:
  \<open>json_parse ''{"exp":1700001800}'' = Some (JObj [(''exp'', JNum ''1700001800'')])\<close>
  by (simp add: json_syntax_eval char_eval)

lemma time_2024: "time_Parse_RFC3339 ''2024-01-01T00:00:00Z'' = Some (time_Unix 1704067200 0)"
  by (simp add: time_eval char_eval)

lemma legacy_pair_2024:
  "extractExpValueLegacy ''tid=1; exp = 2024-01-01T00:00:00Z ;x''
     = Some (time_Unix 1704067200 0)"
  by (simp add: extractExpValueLegacy_def strings_TrimSpace_def strings_TrimRightSpace_def isSpace_def isSpace2_def isSpace3_def ord_def time_2024)

lemma legacy_bad_base64:
  "extractExpValueLegacy ''a.!!!.b;exp=2024-01-01T00:00:00Z'' = Some (time_Unix 1704067200 0)"
  by (simp add: extractExpValueLegacy_def strings_TrimSpace_def strings_TrimRightSpace_def isSpace_def isSpace2_def isSpace3_def ord_def time_2024)

lemma legacy_nojson:
  "extractExpValueLegacy ''a.bm9qc29u.b;exp=2024-01-01T00:00:00Z''
     = Some (time_Unix 1704067200 0)"
  by (simp add: extractExpValueLegacy_def strings_TrimSpace_def strings_TrimRightSpace_def isSpace_def isSpace2_def isSpace3_def ord_def time_2024)

lemma decode_bad_base64: "base64_URLEncoding_DecodeString (pad_payload ''!!!'') = None"
  by (simp add: base64_eval char_eval)

lemma decode_nojson:
  "base64_URLEncoding_DecodeString (pad_payload ''bm9qc29u'') = Some ''nojson''"
  by (simp add: base64_eval char_eval)

lemma claims_nojson: "json_Unmarshal_JWTClaims ''nojson'' = None"
  by (simp add: json_Unmarshal_JWTClaims_def json_syntax_eval char_eval)

lemma decode_sub:
  \<open>base64_URLEncoding_DecodeString (pad_payload ''eyJzdWIiOiJ1In0'') = Some ''{"sub":"u"}''\<close>
  by (simp add: base64_eval char_eval)

lemma claims_sub: \<open>json_Unmarshal_JWTClaims ''{"sub":"u"}'' = Some \<lparr>Exp = 0\<rparr>\<close>
  by (simp add: json_Unmarshal_JWTClaims_def set_JWTClaims_def unmarshal_struct_def
        json_syntax_eval json_store_eval char_eval)

lemma TrimSpace_unicode:
  "strings_TrimSpace ([byte_of 0xC2, byte_of 0xA0] @ '' exp''
                       @ [byte_of 0xE2, byte_of 0x80, byte_of 0x89, byte_of 0x0D])
     = ''exp''"
  by (simp add: strings_TrimSpace_def strings_TrimRightSpace_def isSpace_def isSpace2_def
        isSpace3_def char_eval)

text \<open>
  Five tokens, one for each case: a signed token with the expiry 1700001800; a legacy
  token of one segment; a token whose middle segment is no base64; a token whose middle
  segment decodes to \<open>nojson\<close>; a token whose middle segment decodes to an object
  with a subject and no expiry. The last four hold \<open>exp=2024-01-01T00:00:00Z\<close>, which
  the legacy scan finds where it is run; for the last token it is not run.
\<close>

theorem extractExpFromJWT_tiers_witness:
  \<open>strings_Split ''a.eyJleHAiOjE3MDAwMDE4MDB9.b'' (CHR ''.'')
      = [''a'', ''eyJleHAiOjE3MDAwMDE4MDB9'', ''b'']
   \<and> base64_URLEncoding_DecodeString (pad_payload ''eyJleHAiOjE3MDAwMDE4MDB9'')
      = Some ''{"exp":1700001800}''
   \<and> json_parse ''{"exp":1700001800}'' = Some (JObj [(''exp'', JNum ''1700001800'')])
   \<and> filter (\<lambda>kv. foldName (fst kv) = ''exp'') [(''exp'', JNum ''1700001800'')]
      = [(''exp'', JNum ''1700001800'')]
   \<and> parse_int64 ''1700001800'' = Some 1700001800
   \<and> extractExpFromJWT ''a.eyJleHAiOjE3MDAwMDE4MDB9.b'' = (Some (time_Unix 1700001800 0), None)
   \<and> length (strings_Split ''tid=1; exp = 2024-01-01T00:00:00Z ;x'' (CHR ''.'')) \<noteq> 3
   \<and> extractExpFromJWT ''tid=1; exp = 2024-01-01T00:00:00Z ;x''
      = (Some (time_Unix 1704067200 0), None)
   \<and> strings_Split ''a.!!!.b;exp=2024-01-01T00:00:00Z'' (CHR ''.'')
      = [''a'', ''!!!'', ''b;exp=2024-01-01T00:00:00Z'']
   \<and> base64_URLEncoding_DecodeString (pad_payload ''!!!'') = None
   \<and> extractExpFromJWT ''a.!!!.b;exp=2024-01-01T00:00:00Z''
      = (Some (time_Unix 1704067200 0), None)
   \<and> strings_Split ''a.bm9qc29u.b;exp=2024-01-01T00:00:00Z'' (CHR ''.'')
      = [''a'', ''bm9qc29u'', ''b;exp=2024-01-01T00:00:00Z'']
   \<and> base64_URLEncoding_DecodeString (pad_payload ''bm9qc29u'') = Some ''nojson''
   \<and> json_Unmarshal_JWTClaims ''nojson'' = None
   \<and> extractExpFromJWT ''a.bm9qc29u.b;exp=2024-01-01T00:00:00Z''
      = (Some (time_Unix 1704067200 0), None)
   \<and> strings_Split ''a.eyJzdWIiOiJ1In0.b;exp=2024-01-01T00:00:00Z'' (CHR ''.'')
      = [''a'', ''eyJzdWIiOiJ1In0'', ''b;exp=2024-01-01T00:00:00Z'']
   \<and> base64_URLEncoding_DecodeString (pad_payload ''eyJzdWIiOiJ1In0'') = Some ''{"sub":"u"}''
   \<and> json_Unmarshal_JWTClaims ''{"sub":"u"}'' = Some \<lparr>Exp = 0\<rparr>
   \<and> extractExpFromJWT ''a.eyJzdWIiOiJ1In0.b;exp=2024-01-01T00:00:00Z''
      = (Some (time_Unix 0 0), None)\<close>
proof -
  have s1: "strings_Split ''a.eyJleHAiOjE3MDAwMDE4MDB9.b'' (CHR ''.'')
      = [''a'', ''eyJleHAiOjE3MDAwMDE4MDB9'', ''b'']"
    by simp
  have f1: "filter (\<lambda>kv. foldName (fst kv) = ''exp'') [(''exp'', JNum ''1700001800'')]
      = [(''exp'', JNum ''1700001800'')]"
    by (simp add: toLower_def ord_def)
  have p1: "parse_int64 ''1700001800'' = Some 1700001800"
    by (simp add: parse_int64_def char_eval)
  have r1: "extractExpFromJWT ''a.eyJleHAiOjE3MDAwMDE4MDB9.b''
      = (Some (time_Unix 1700001800 0), None)"
    by (rule extractExpFromJWT_tiers
      [where token = "''a.eyJleHAiOjE3MDAwMDE4MDB9.b''" and header = "''a''"
         and payload = "''eyJleHAiOjE3MDAwMDE4MDB9''" and signature = "''b''"
         and decoded = \<open>''{"exp":1700001800}''\<close>
         and members = "[(''exp'', JNum ''1700001800'')]" and k = "''exp''"
         and lit = "''1700001800''" and e = 1700001800,
       THEN conjunct1, THEN mp])
      (simp only: s1 decode_1700001800 parse_claims_1700001800 f1 p1 simp_thms)
  have s2: "length (strings_Split ''tid=1; exp = 2024-01-01T00:00:00Z ;x'' (CHR ''.'')) \<noteq> 3"
    by simp
  have r2: "extractExpFromJWT ''tid=1; exp = 2024-01-01T00:00:00Z ;x''
      = (Some (time_Unix 1704067200 0), None)"
    using extractExpFromJWT_tiers
      [where token = "''tid=1; exp = 2024-01-01T00:00:00Z ;x''",
       THEN conjunct2, THEN conjunct1, THEN mp, OF s2]
    by (simp only: legacy_pair_2024)
  have s3: "strings_Split ''a.!!!.b;exp=2024-01-01T00:00:00Z'' (CHR ''.'')
      = [''a'', ''!!!'', ''b;exp=2024-01-01T00:00:00Z'']"
    by simp
  have r3: "extractExpFromJWT ''a.!!!.b;exp=2024-01-01T00:00:00Z''
      = (Some (time_Unix 1704067200 0), None)"
    using extractExpFromJWT_tiers
      [where token = "''a.!!!.b;exp=2024-01-01T00:00:00Z''" and header = "''a''"
         and payload = "''!!!''" and signature = "''b;exp=2024-01-01T00:00:00Z''",
       THEN conjunct2, THEN conjunct2, THEN conjunct1, THEN mp]
      s3 decode_bad_base64
    by (simp only: legacy_bad_base64 simp_thms)
  have s4: "strings_Split ''a.bm9qc29u.b;exp=2024-01-01T00:00:00Z'' (CHR ''.'')
      = [''a'', ''bm9qc29u'', ''b;exp=2024-01-01T00:00:00Z'']"
    by simp
  have r4: "extractExpFromJWT ''a.bm9qc29u.b;exp=2024-01-01T00:00:00Z''
      = (Some (time_Unix 1704067200 0), None)"
    using extractExpFromJWT_tiers
      [where token = "''a.bm9qc29u.b;exp=2024-01-01T00:00:00Z''" and header = "''a''"
         and payload = "''bm9qc29u''" and signature = "''b;exp=2024-01-01T00:00:00Z''"
         and decoded = "''nojson''",
       THEN conjunct2, THEN conjunct2, THEN conjunct2, THEN conjunct1, THEN mp]
      s4 decode_nojson claims_nojson
    by (simp only: legacy_nojson simp_thms)
  have s5: "strings_Split ''a.eyJzdWIiOiJ1In0.b;exp=2024-01-01T00:00:00Z'' (CHR ''.'')
      = [''a'', ''eyJzdWIiOiJ1In0'', ''b;exp=2024-01-01T00:00:00Z'']"
    by simp
  have r5: "extractExpFromJWT ''a.eyJzdWIiOiJ1In0.b;exp=2024-01-01T00:00:00Z''
      = (Some (time_Unix 0 0), None)"
    using extractExpFromJWT_tiers
      [where token = "''a.eyJzdWIiOiJ1In0.b;exp=2024-01-01T00:00:00Z''" and header = "''a''"
         and payload = "''eyJzdWIiOiJ1In0''" and signature = "''b;exp=2024-01-01T00:00:00Z''"
         and decoded = \<open>''{"sub":"u"}''\<close> and claims = "\<lparr>Exp = 0\<rparr>",
       THEN conjunct2, THEN conjunct2, THEN conjunct2, THEN conjunct2, THEN conjunct1,
       THEN mp]
      s5 decode_sub claims_sub
    by (simp only: simp_thms JWTClaims.simps)
  from s1 decode_1700001800 parse_claims_1700001800 f1 p1 r1 s2 r2 s3 decode_bad_base64 r3
    s4 decode_nojson claims_nojson r4 s5 decode_sub claims_sub r5
  show ?thesis by (intro conjI)
qed

lemma decode_empty_object: "base64_URLEncoding_DecodeString (pad_payload ''e30'') = Some ''{}''"
  by (simp add: base64_eval char_eval)

lemma parse_empty_object: "json_parse ''{}'' = Some (JObj [])"
  by (simp add: json_syntax_eval char_eval)

text \<open>
  Claim C4 as stated fails on a token whose middle segment decodes to an object without
  an expiry: \<open>e30\<close> is \<open>{}\<close>. The claim has the extraction fall back to the legacy
  scan, which finds nothing in this token; the code returns the expiry 0, the epoch.
\<close>

theorem extractExpFromJWT_missing_field_counterexample:
  "strings_Split ''a.e30.b'' (CHR ''.'') = [''a'', ''e30'', ''b'']
   \<and> base64_URLEncoding_DecodeString (pad_payload ''e30'') = Some ''{}''
   \<and> json_parse ''{}'' = Some (JObj [])
   \<and> extractExpValueLegacy ''a.e30.b'' = None
   \<and> extractExpFromJWT ''a.e30.b'' = (Some (time_Unix 0 0), None)
   \<and> extractExpFromJWT ''a.e30.b'' \<noteq> (extractExpValueLegacy ''a.e30.b'', None)"
proof -
  have l: "extractExpValueLegacy ''a.e30.b'' = None"
    by (simp add: extractExpValueLegacy_def)
  have c: "json_Unmarshal_JWTClaims ''{}'' = Some \<lparr>Exp = 0\<rparr>"
    by (simp add: json_Unmarshal_JWTClaims_def parse_empty_object unmarshal_struct_def)
  have r: "extractExpFromJWT ''a.e30.b'' = (Some (time_Unix 0 0), None)"
    by (simp add: extractExpFromJWT_def decode_empty_object c)
  from l r decode_empty_object parse_empty_object show ?thesis by simp
qed

section \<open>The endpoints of model discovery\<close>

lemma tryModelsEndpoint_event:
  assumes "script w = ev # rest" "ev \<noteq> CtxDone"
  shows "tryModelsEndpoint w tok url
           = (endpoint_result ev url (clock w),
              w\<lparr>script := rest, requests := requests w @ [(''GET'', url)]\<rparr>)"
  using assms
  by (cases ev) (simp_all add: tryModelsEndpoint_def makeRequest_def endpoint_result_def)

lemma try_endpoints_prefix:
  "list_all2 (fails_endpoint (clock w)) evs pre
   \<Longrightarrow> script w = evs @ rest
   \<Longrightarrow> try_endpoints (pre @ eps) tok w
         = try_endpoints eps tok
             (w\<lparr>script := rest,
                requests := requests w @ map (\<lambda>ep. (''GET'', snd ep)) pre\<rparr>)"
proof (induction pre arbitrary: evs w)
  case Nil
  then have same: "w\<lparr>script := rest,
                     requests := requests w @ map (\<lambda>ep. (''GET'', snd ep)) []\<rparr> = w"
    by (cases w) simp
  show ?case by (simp only: append_Nil same)
next
  case (Cons p pre)
  from Cons.prems(1) obtain v evs' where evs: "evs = v # evs'"
    and v: "fails_endpoint (clock w) v p"
    and rest: "list_all2 (fails_endpoint (clock w)) evs' pre"
    by (auto simp: list_all2_Cons2)
  let ?w' = "w\<lparr>script := evs' @ rest, requests := requests w @ [(''GET'', snd p)]\<rparr>"
  from Cons.prems(2) evs have sw: "script w = v # evs' @ rest" by simp
  from v have nd: "v \<noteq> CtxDone"
    and lose: "\<not> yields_models (endpoint_result v (snd p) (clock w))"
    by (simp_all add: fails_endpoint_def)
  have step: "tryModelsEndpoint w tok (snd p) = (endpoint_result v (snd p) (clock w), ?w')"
    using tryModelsEndpoint_event [OF sw nd] by simp
  obtain models err where r: "endpoint_result v (snd p) (clock w) = (models, err)"
    by (cases "endpoint_result v (snd p) (clock w)")
  from lose r have no: "\<not> (err = None \<and> models \<noteq> [])" by (simp add: yields_models_def)
  have "try_endpoints ((p # pre) @ eps) tok w = try_endpoints (pre @ eps) tok ?w'"
    using step r no by auto
  also have "\<dots> = try_endpoints eps tok
             (?w'\<lparr>script := rest,
                   requests := requests ?w' @ map (\<lambda>ep. (''GET'', snd ep)) pre\<rparr>)"
    using Cons.IH [of ?w' evs'] rest by simp
  finally show ?case by simp
qed

text \<open>
  Claim C6. For every list of candidate endpoints \<open>pre @ e # post\<close>: when the
  provider's answers to the endpoints of \<open>pre\<close> each fail or parse to no model, and
  its answer to \<open>e\<close> parses to at least one model, the loop returns the deduplicated
  models of that one answer. Exactly the endpoints of \<open>pre\<close> and \<open>e\<close> were
  requested, in order; the endpoints of \<open>post\<close> were not, and the answers the provider
  had for them are still unused. The result does not depend on \<open>post\<close> or on any other
  answer.
\<close>

theorem try_endpoints_first_success_wins:
  assumes "list_all2 (fails_endpoint (clock w)) evs pre"
    and "yields_models (endpoint_result ev (snd e) (clock w))"
    and "script w = evs @ ev # rest"
  shows "try_endpoints (pre @ e # post) tok w
           = ((deduplicateModels (fst (endpoint_result ev (snd e) (clock w))), None),
              w\<lparr>script := rest,
                requests := requests w @ map (\<lambda>ep. (''GET'', snd ep)) (pre @ [e])\<rparr>)"
proof -
  let ?w1 = "w\<lparr>script := ev # rest,
                requests := requests w @ map (\<lambda>ep. (''GET'', snd ep)) pre\<rparr>"
  from assms(2) have answered: "ev \<noteq> CtxDone"
    by (auto simp: yields_models_def endpoint_result_def)
  have "try_endpoints (pre @ e # post) tok w = try_endpoints (e # post) tok ?w1"
    using try_endpoints_prefix [OF assms(1) assms(3)] by simp
  moreover have "tryModelsEndpoint ?w1 tok (snd e)
       = (endpoint_result ev (snd e) (clock w),
          w\<lparr>script := rest,
            requests := requests w @ map (\<lambda>ep. (''GET'', snd ep)) (pre @ [e])\<rparr>)"
    using tryModelsEndpoint_event [of ?w1 ev rest tok "snd e"] answered by simp
  moreover obtain models err where r: "endpoint_result ev (snd e) (clock w) = (models, err)"
    by (cases "endpoint_result ev (snd e) (clock w)")
  moreover from assms(2) r have "err = None \<and> models \<noteq> []" by (simp add: yields_models_def)
  ultimately show ?thesis by simp
qed

lemmas models_eval =
  json_Unmarshal_data_def json_Unmarshal_ModelInfos_def json_Unmarshal_strings_def
  dec_ModelInfos_def set_ModelInfo_def zero_ModelInfo_def parseModelsResponse_def
  model_of_name_def

lemma parse_models_empty_array:
  "parseModelsResponse ''[]'' url now = ([], Some (UnableToParse url))"
  by (simp add: models_eval json_syntax_eval json_store_eval char_eval)

lemma parse_models_names:
  \<open>parseModelsResponse ''["gpt-4","claude","gpt-4"]'' url now
     = ([model_of_name now ''gpt-4'', model_of_name now ''claude'', model_of_name now ''gpt-4''],
        None)\<close>
  by (simp add: models_eval json_syntax_eval json_store_eval char_eval)

text \<open>
  The five endpoints of the code, the provider answering 401, an empty array, an array of
  three names with a duplicate, and an array with another name: the third endpoint wins
  with \<open>gpt-4, claude\<close>, three requests are made, and the fourth answer stays unused.
\<close>

theorem try_endpoints_first_success_wins_witness:
  \<open>list_all2 (fails_endpoint (clock (world0 [])))
      [HttpResponse 401 ''unauthorized'', HttpResponse 200 ''[]''] (take 2 endpoints)
   \<and> yields_models (endpoint_result (HttpResponse 200 ''["gpt-4","claude","gpt-4"]'')
                      (snd (endpoints ! 2)) (clock (world0 [])))
   \<and> try_endpoints endpoints ''tok''
        (world0 [HttpResponse 401 ''unauthorized'', HttpResponse 200 ''[]'',
                 HttpResponse 200 ''["gpt-4","claude","gpt-4"]'',
                 HttpResponse 200 ''["o1"]''])
      = (([model_of_name (clock (world0 [])) ''gpt-4'',
           model_of_name (clock (world0 [])) ''claude''], None),
         (world0 [HttpResponse 200 ''["o1"]''])
           \<lparr>requests := [(''GET'', ModelsURL), (''GET'', ModelsURLAlt),
                         (''GET'', ''https://api.githubcopilot.com/models'')]\<rparr>)\<close>
proof -
  let ?w = \<open>world0 [HttpResponse 401 ''unauthorized'', HttpResponse 200 ''[]'',
                 HttpResponse 200 ''["gpt-4","claude","gpt-4"]'',
                 HttpResponse 200 ''["o1"]'']\<close>
  have clk: "clock ?w = clock (world0 [])" by (simp add: world0_def)
  have h1: "list_all2 (fails_endpoint (clock ?w))
      [HttpResponse 401 ''unauthorized'', HttpResponse 200 ''[]''] (take 2 endpoints)"
    by (simp add: endpoints_def fails_endpoint_def endpoint_result_def yields_models_def
          parse_models_empty_array)
  have res: \<open>endpoint_result (HttpResponse 200 ''["gpt-4","claude","gpt-4"]'')
                      (snd (endpoints ! 2)) (clock ?w)
       = ([model_of_name (clock ?w) ''gpt-4'', model_of_name (clock ?w) ''claude'',
           model_of_name (clock ?w) ''gpt-4''], None)\<close>
    by (simp only: endpoint_result_def net_event.case parse_models_names) simp
  have h3: \<open>yields_models (endpoint_result (HttpResponse 200 ''["gpt-4","claude","gpt-4"]'')
                      (snd (endpoints ! 2)) (clock ?w))\<close>
    by (simp only: res yields_models_def) simp
  have h4: \<open>script ?w = [HttpResponse 401 ''unauthorized'', HttpResponse 200 ''[]'']
               @ HttpResponse 200 ''["gpt-4","claude","gpt-4"]''
               # [HttpResponse 200 ''["o1"]'']\<close>
    by (simp add: world0_def)
  have eps: "take 2 endpoints @ endpoints ! 2 # drop 3 endpoints = endpoints"
    by (simp add: endpoints_def)
  have dd: "deduplicateModels [model_of_name t ''gpt-4'', model_of_name t ''claude'',
                               model_of_name t ''gpt-4'']
              = [model_of_name t ''gpt-4'', model_of_name t ''claude'']" for t
    by (simp add: deduplicateModels_def dedup_step_def model_of_name_def)
  have reqs: "map (\<lambda>ep. (''GET'', snd ep)) (take 2 endpoints @ [endpoints ! 2])
       = [(''GET'', ModelsURL), (''GET'', ModelsURLAlt),
          (''GET'', ''https://api.githubcopilot.com/models'')]"
    by (simp add: endpoints_def)
  have \<open>try_endpoints (take 2 endpoints @ endpoints ! 2 # drop 3 endpoints) ''tok'' ?w
      = (([model_of_name (clock ?w) ''gpt-4'', model_of_name (clock ?w) ''claude''], None),
         ?w\<lparr>script := [HttpResponse 200 ''["o1"]''],
             requests := requests ?w @ [(''GET'', ModelsURL), (''GET'', ModelsURLAlt),
                         (''GET'', ''https://api.githubcopilot.com/models'')]\<rparr>)\<close>
    using try_endpoints_first_success_wins [OF h1 h3 h4, of "drop 3 endpoints" "''tok''"]
    by (simp only: res fst_conv dd reqs)
  then have run: \<open>try_endpoints endpoints ''tok'' ?w
      = (([model_of_name (clock (world0 [])) ''gpt-4'',
           model_of_name (clock (world0 [])) ''claude''], None),
         (world0 [HttpResponse 200 ''["o1"]''])
           \<lparr>requests := [(''GET'', ModelsURL), (''GET'', ModelsURLAlt),
                         (''GET'', ''https://api.githubcopilot.com/models'')]\<rparr>)\<close>
    by (simp only: eps) (simp add: world0_def)
  from h1 h3 run show ?thesis by (simp only: clk simp_thms)
qed

section \<open>The device flow\<close>
















end
